theory Spec2Isabelle
  imports Main "HOL-Library.Char_ord" "HOL-Library.List_Lexorder"
begin

section \<open>JSON values\<close>

text \<open>
  The messages of the chat server are Python dictionaries obtained from JSON text.
  A JSON value is modelled by the datatype below; a dictionary is an association list in
  insertion order, as Python keeps it. A Python \<open>str\<close> is modelled by its UTF-8 encoding,
  one \<open>char\<close> per byte; a \<open>str\<close> that holds a lone surrogate (\<open>json.loads\<close> makes one from
  an escape of a surrogate code point) has no UTF-8 encoding, and is modelled by the three bytes
  the same scheme gives the surrogate (0xED 0xA0 0x80 for U+D800), which \<open>utf8_valid\<close>
  below refuses. Floating point numbers are not part of the model.
\<close>

datatype json =
    JNull
  | JBool bool
  | JInt int
  | JStr string
  | JArr "json list"
  | JObj "(string \<times> json) list"

text \<open>Python truthiness of a JSON value and of an optional string.\<close>

fun truthy :: "json \<Rightarrow> bool" where
  "truthy JNull = False"
| "truthy (JBool b) = b"
| "truthy (JInt i) = (i \<noteq> 0)"
| "truthy (JStr s) = (s \<noteq> [])"
| "truthy (JArr xs) = (xs \<noteq> [])"
| "truthy (JObj kvs) = (kvs \<noteq> [])"

text \<open>
  A dictionary key and an argument of a cached function must be hashable: a list or a
  dictionary raises \<open>TypeError\<close>.
\<close>

fun hashable :: "json \<Rightarrow> bool" where
  "hashable (JArr xs) = False"
| "hashable (JObj kvs) = False"
| "hashable v = True"

definition falsy_str :: "string option \<Rightarrow> bool" where
  "falsy_str x = (case x of None \<Rightarrow> True | Some s \<Rightarrow> s = [])"

text \<open>\<open>dict.get\<close> and \<open>dict.setdefault\<close> on a dictionary kept as an association list.\<close>

definition dict_get :: "(string \<times> json) list \<Rightarrow> string \<Rightarrow> json option" where
  "dict_get d k = map_of d k"

definition setdefault :: "(string \<times> json) list \<Rightarrow> string \<Rightarrow> json \<Rightarrow> (string \<times> json) list" where
  "setdefault d k v = (case map_of d k of None \<Rightarrow> d @ [(k, v)] | Some old \<Rightarrow> d)"

text \<open>A member of a JSON object; \<open>None\<close> for a missing key and for a value that is no object.\<close>

definition json_member :: "json \<Rightarrow> string \<Rightarrow> json option" where
  "json_member v k = (case v of JObj d \<Rightarrow> map_of d k | other \<Rightarrow> None)"

section \<open>Protocol errors (shared/protocol/errors.py)\<close>

datatype StatusCode =
    SUCCESS | ACCEPTED | BAD_REQUEST | UNAUTHORIZED | FORBIDDEN | NOT_FOUND | CONFLICT
  | TOO_MANY_REQUESTS | UPGRADE_REQUIRED | INTERNAL_ERROR

fun status_int :: "StatusCode \<Rightarrow> int" where
  "status_int SUCCESS = 200"
| "status_int ACCEPTED = 202"
| "status_int BAD_REQUEST = 400"
| "status_int UNAUTHORIZED = 401"
| "status_int FORBIDDEN = 403"
| "status_int NOT_FOUND = 404"
| "status_int CONFLICT = 409"
| "status_int TOO_MANY_REQUESTS = 429"
| "status_int UPGRADE_REQUIRED = 426"
| "status_int INTERNAL_ERROR = 500"

datatype ErrorCode =
    INVALID_TOKEN | VERSION_MISMATCH | SIGNATURE_INVALID | PARAM_MISSING | RATE_LIMITED
  | USER_EXISTS

fun code_int :: "ErrorCode \<Rightarrow> int" where
  "code_int INVALID_TOKEN = 1001"
| "code_int VERSION_MISMATCH = 1002"
| "code_int SIGNATURE_INVALID = 1003"
| "code_int PARAM_MISSING = 1004"
| "code_int RATE_LIMITED = 1005"
| "code_int USER_EXISTS = 1006"

text \<open>
  An exception that leaves a function: a \<open>ProtocolError(status, code, message)\<close>, or any
  other Python exception, named by its class.
\<close>

datatype error =
    ProtocolError StatusCode "ErrorCode option" string
  | Unhandled string

text \<open>\<open>ProtocolError.to_payload\<close>.\<close>

definition to_payload :: "StatusCode \<Rightarrow> ErrorCode option \<Rightarrow> string \<Rightarrow> json" where
  "to_payload status code message =
     JObj [(''status'', JInt (status_int status)),
           (''error_code'', (case code of None \<Rightarrow> JNull | Some c \<Rightarrow> JInt (code_int c))),
           (''error_message'', JStr message)]"

section \<open>Framing (shared/protocol/framing.py, constants.py)\<close>

definition DEFAULT_VERSION :: string where
  "DEFAULT_VERSION = ''1.0''"

definition FRAME_DELIMITER :: string where
  "FRAME_DELIMITER = [CHR 0x0A]"

definition MAX_PAYLOAD_SIZE :: nat where
  "MAX_PAYLOAD_SIZE = 256 * 1024"

subsection \<open>\<open>json.dumps(msg, ensure_ascii=False, separators=(",", ":"))\<close>\<close>

text \<open>
  The compact serialisation of the Python standard library, followed by
  \<open>.encode("utf-8")\<close>: since a string of the model is its UTF-8 encoding, the bytes of a
  string are copied, except for the quote, the backslash and the control characters below
  0x20, which \<open>json\<close> escapes.
\<close>

definition hex_digit :: "nat \<Rightarrow> char" where
  "hex_digit n = (if n < 10 then char_of (48 + n) else char_of (87 + n))"

definition escape_char :: "char \<Rightarrow> string" where
  "escape_char c =
     (if c = CHR 0x22 then [CHR 0x5C, CHR 0x22]
      else if c = CHR 0x5C then [CHR 0x5C, CHR 0x5C]
      else if c = CHR 0x0A then [CHR 0x5C, CHR ''n'']
      else if c = CHR 0x0D then [CHR 0x5C, CHR ''r'']
      else if c = CHR 0x09 then [CHR 0x5C, CHR ''t'']
      else if c = CHR 0x08 then [CHR 0x5C, CHR ''b'']
      else if c = CHR 0x0C then [CHR 0x5C, CHR ''f'']
      else if (of_char c :: nat) < 32 then
        [CHR 0x5C, CHR ''u'', CHR ''0'', CHR ''0'',
         hex_digit (of_char c div 16), hex_digit (of_char c mod 16)]
      else [c])"

definition encode_basestring :: "string \<Rightarrow> string" where
  "encode_basestring s = CHR 0x22 # concat (map escape_char s) @ [CHR 0x22]"

function dec_nat :: "nat \<Rightarrow> string" where
  "dec_nat n =
     (if n < 10 then [char_of (48 + n)]
      else dec_nat (n div 10) @ [char_of (48 + n mod 10)])"
  by pat_completeness auto
termination by (relation "measure id") auto

declare dec_nat.simps [simp del]

definition dec_int :: "int \<Rightarrow> string" where
  "dec_int i = (if i < 0 then CHR ''-'' # dec_nat (nat (- i)) else dec_nat (nat i))"

fun json_dumps :: "json \<Rightarrow> string"
  and dumps_items :: "json list \<Rightarrow> string"
  and dumps_members :: "(string \<times> json) list \<Rightarrow> string" where
  "json_dumps JNull = ''null''"
| "json_dumps (JBool b) = (if b then ''true'' else ''false'')"
| "json_dumps (JInt i) = dec_int i"
| "json_dumps (JStr s) = encode_basestring s"
| "json_dumps (JArr xs) = CHR ''['' # dumps_items xs @ '']''"
| "json_dumps (JObj kvs) = CHR ''{'' # dumps_members kvs @ ''}''"
| "dumps_items [] = []"
| "dumps_items [x] = json_dumps x"
| "dumps_items (x # y # ys) = json_dumps x @ '','' @ dumps_items (y # ys)"
| "dumps_members [] = []"
| "dumps_members [(k, v)] = encode_basestring k @ '':'' @ json_dumps v"
| "dumps_members ((k, v) # kv # kvs) =
     encode_basestring k @ '':'' @ json_dumps v @ '','' @ dumps_members (kv # kvs)"

subsection \<open>Well-formed UTF-8\<close>

text \<open>
  The byte strings Python's strict UTF-8 decoder accepts: no overlong form, no surrogate,
  nothing above U+10FFFF. A string of the model that is not well-formed stands for a
  \<open>str\<close> with a lone surrogate: \<open>.encode("utf-8")\<close> raises \<open>UnicodeEncodeError\<close> for it, and
  so does binding it as a parameter of an SQL statement.
\<close>

definition byte :: "char \<Rightarrow> nat" where
  "byte c = of_char c"

definition continuation :: "char \<Rightarrow> bool" where
  "continuation c \<longleftrightarrow> 0x80 \<le> byte c \<and> byte c \<le> 0xBF"

fun utf8_valid :: "string \<Rightarrow> bool" where
  "utf8_valid [] = True"
| "utf8_valid (c # cs) =
     (if byte c < 0x80 then utf8_valid cs
      else if 0xC2 \<le> byte c \<and> byte c \<le> 0xDF then
        (case cs of
           c1 # r \<Rightarrow> continuation c1 \<and> utf8_valid r
         | _ \<Rightarrow> False)
      else if 0xE0 \<le> byte c \<and> byte c \<le> 0xEF then
        (case cs of
           c1 # c2 # r \<Rightarrow>
             continuation c1 \<and> continuation c2 \<and>
             (byte c = 0xE0 \<longrightarrow> 0xA0 \<le> byte c1) \<and>
             (byte c = 0xED \<longrightarrow> byte c1 \<le> 0x9F) \<and> utf8_valid r
         | _ \<Rightarrow> False)
      else if 0xF0 \<le> byte c \<and> byte c \<le> 0xF4 then
        (case cs of
           c1 # c2 # c3 # r \<Rightarrow>
             continuation c1 \<and> continuation c2 \<and> continuation c3 \<and>
             (byte c = 0xF0 \<longrightarrow> 0x90 \<le> byte c1) \<and>
             (byte c = 0xF4 \<longrightarrow> byte c1 \<le> 0x8F) \<and> utf8_valid r
         | _ \<Rightarrow> False)
      else False)"

subsection \<open>\<open>encode_msg\<close>\<close>

text \<open>
  \<open>json.dumps\<close> is inside the \<open>try\<close> of \<open>encode_msg\<close> and does not fail on a value of the
  model; \<open>json_str.encode(ENCODING)\<close> is outside it, so its \<open>UnicodeEncodeError\<close> is not
  turned into a \<open>ProtocolError\<close>.
\<close>

definition encode_msg :: "json \<Rightarrow> error + string" where
  "encode_msg msg =
     (let data = json_dumps msg in
      if \<not> utf8_valid data then Inl (Unhandled ''UnicodeEncodeError'')
      else if length data > MAX_PAYLOAD_SIZE
      then Inl (ProtocolError BAD_REQUEST None ''Payload too large for control channel'')
      else Inr (data @ FRAME_DELIMITER))"

section \<open>The persistent store (server/storage/sqlite\_store.py)\<close>

text \<open>
  \<open>SQLiteStore\<close> keeps one table per entity. A table with a text primary key is a map
  from the key to the row; a table whose rows are read back in an order is a list of rows.
  Every \<open>int(time.time())\<close> of the source is the parameter \<open>now\<close> of the operation, and
  every fresh identifier (\<open>uuid4().hex\<close>, \<open>secrets.token_hex\<close>) is a parameter too.
\<close>

record user_row =
  ur_password_hash :: string
  ur_created_at :: int

record session_row =
  sr_username :: string
  sr_created_at :: int
  sr_expires_at :: int

record presence_row =
  pr_state :: string
  pr_updated_at :: int

record message_row =
  mr_message_id :: string
  mr_conversation_id :: string
  mr_sender_id :: string
  mr_content :: json
  mr_timestamp :: int

record room_row =
  rr_owner :: string
  rr_encrypted :: bool
  rr_created_at :: int
  rr_password_hash :: "string option"
  rr_metadata :: json

record member_row =
  mb_room_id :: string
  mb_user_id :: string
  mb_joined_at :: int

text \<open>
  Table \<open>offline_queue (id INTEGER PRIMARY KEY AUTOINCREMENT, user_id, message, created_at)\<close>.
  The column \<open>message\<close> holds \<open>json.dumps(message)\<close> and is read back with \<open>json.loads\<close>;
  the model keeps the JSON value itself.
\<close>

record offline_row =
  oq_id :: nat
  oq_user :: string
  oq_message :: json
  oq_created_at :: int

record request_row =
  fr_id :: nat
  fr_from_user :: string
  fr_to_user :: string
  fr_message :: "string option"
  fr_status :: string
  fr_created_at :: int
  fr_updated_at :: int

record friend_row =
  fd_user1 :: string
  fd_user2 :: string
  fd_created_at :: int

text \<open>
  \<open>offline_seq\<close> and \<open>request_seq\<close> are the counters behind AUTOINCREMENT: the largest row
  id handed out so far in the table.
\<close>

record store =
  users :: "string \<rightharpoonup> user_row"
  sessions :: "string \<rightharpoonup> session_row"
  presence :: "string \<rightharpoonup> presence_row"
  messages :: "message_row list"
  rooms :: "string \<rightharpoonup> room_row"
  room_members :: "member_row list"
  offline_queue :: "offline_row list"
  offline_seq :: nat
  friend_requests :: "request_row list"
  request_seq :: nat
  friends :: "friend_row list"

definition empty_store :: store where
  "empty_store =
     \<lparr>users = Map.empty, sessions = Map.empty, presence = Map.empty, messages = [],
      rooms = Map.empty, room_members = [], offline_queue = [], offline_seq = 0,
      friend_requests = [], request_seq = 0, friends = []\<rparr>"

subsection \<open>Offline queue\<close>

definition enqueue_offline_message :: "int \<Rightarrow> store \<Rightarrow> string \<Rightarrow> json \<Rightarrow> store" where
  "enqueue_offline_message now s user_id message =
     s\<lparr>offline_queue := offline_queue s @
          [\<lparr>oq_id = Suc (offline_seq s), oq_user = user_id, oq_message = message,
            oq_created_at = now\<rparr>],
       offline_seq := Suc (offline_seq s)\<rparr>"





text \<open>The events waiting for a user, in the order of insertion.\<close>

definition pending :: "store \<Rightarrow> string \<Rightarrow> json list" where
  "pending s user_id = map oq_message (filter (\<lambda>r. oq_user r = user_id) (offline_queue s))"

subsection \<open>Users, sessions, presence\<close>

text \<open>
  A function of the store that raises returns \<open>Inl\<close> of the exception; nothing was
  written then, so no new store is returned.
\<close>

text \<open>
  Binding a Python value as a parameter of a statement, for a column of TEXT affinity.
  \<open>None\<close> is \<open>NULL\<close>. An integer (and a \<open>bool\<close>, which is one) must fit 64 bits, or the
  binding raises \<open>OverflowError\<close>; the column takes it as its decimal text, and a
  comparison with the column converts it the same way. A \<open>str\<close> is bound as its UTF-8
  encoding, and raises \<open>UnicodeEncodeError\<close> when it has none. A list or a dictionary is not
  supported: \<open>sqlite3.ProgrammingError\<close> (\<open>InterfaceError\<close> before Python 3.11).
\<close>

datatype sql_value = SqlNull | SqlText string

definition sql_bind :: "json \<Rightarrow> error + sql_value" where
  "sql_bind v =
     (case v of
        JNull \<Rightarrow> Inr SqlNull
      | JBool b \<Rightarrow> Inr (SqlText (if b then ''1'' else ''0''))
      | JInt i \<Rightarrow>
          if - (2 ^ 63) \<le> i \<and> i < 2 ^ 63 then Inr (SqlText (dec_int i))
          else Inl (Unhandled ''OverflowError'')
      | JStr t \<Rightarrow>
          if utf8_valid t then Inr (SqlText t) else Inl (Unhandled ''UnicodeEncodeError'')
      | JArr xs \<Rightarrow> Inl (Unhandled ''ProgrammingError'')
      | JObj kvs \<Rightarrow> Inl (Unhandled ''ProgrammingError''))"

text \<open>
  \<open>UnicodeEncodeError\<close> is a subclass of \<open>ValueError\<close>; \<open>OverflowError\<close> and the errors of
  \<open>sqlite3\<close> are not.
\<close>

definition is_value_error :: "error \<Rightarrow> bool" where
  "is_value_error e \<longleftrightarrow> e = Unhandled ''ValueError'' \<or> e = Unhandled ''UnicodeEncodeError''"

definition get_user :: "store \<Rightarrow> string \<Rightarrow> user_row option" where
  "get_user s username = users s username"

text \<open>
  \<open>user_exists\<close> and \<open>create_user\<close> take the values the handlers read from the payload.
  \<open>create_user\<close> turns the \<open>IntegrityError\<close> of the insert (the username is there already,
  or a column would be \<open>NULL\<close>) into \<open>ValueError\<close>; every other exception of the insert is
  raised as it is.
\<close>

definition user_exists :: "store \<Rightarrow> json \<Rightarrow> error + bool" where
  "user_exists s username =
     (case sql_bind username of
        Inl err \<Rightarrow> Inl err
      | Inr SqlNull \<Rightarrow> Inr False
      | Inr (SqlText u) \<Rightarrow> Inr (users s u \<noteq> None))"

definition create_user :: "int \<Rightarrow> store \<Rightarrow> json \<Rightarrow> json \<Rightarrow> error + store" where
  "create_user now s username password_hash =
     (case sql_bind username of
        Inl err \<Rightarrow> Inl err
      | Inr bound_name \<Rightarrow>
          (case sql_bind password_hash of
             Inl err \<Rightarrow> Inl err
           | Inr bound_hash \<Rightarrow>
               (case (bound_name, bound_hash) of
                  (SqlText u, SqlText h) \<Rightarrow>
                    if users s u \<noteq> None then Inl (Unhandled ''ValueError'')
                    else Inr (s\<lparr>users := (users s)(u \<mapsto>
                                \<lparr>ur_password_hash = h, ur_created_at = now\<rparr>)\<rparr>)
                | other \<Rightarrow> Inl (Unhandled ''ValueError''))))"

definition upsert_session :: "int \<Rightarrow> store \<Rightarrow> string \<Rightarrow> string \<Rightarrow> int \<Rightarrow> store" where
  "upsert_session now s token username expires_in =
     s\<lparr>sessions := (sessions s)(token \<mapsto>
          \<lparr>sr_username = username, sr_created_at = now, sr_expires_at = now + expires_in\<rparr>)\<rparr>"

definition delete_session :: "store \<Rightarrow> string \<Rightarrow> store" where
  "delete_session s token = s\<lparr>sessions := (sessions s)(token := None)\<rparr>"

definition update_presence :: "int \<Rightarrow> store \<Rightarrow> string \<Rightarrow> string \<Rightarrow> store" where
  "update_presence now s user state =
     s\<lparr>presence := (presence s)(user \<mapsto> \<lparr>pr_state = state, pr_updated_at = now\<rparr>)\<rparr>"

subsection \<open>Messages\<close>

text \<open>
  \<open>insert_message\<close>: \<open>mid\<close> is the value of \<open>uuid4().hex\<close>. The column \<open>content\<close> holds
  \<open>json.dumps(content or {})\<close>; \<open>message_id\<close> is the primary key, so a second row with the
  same id raises \<open>sqlite3.IntegrityError\<close>. The function returns the stored fields (with
  the content as it was given) and the new store.
\<close>

definition insert_message ::
  "int \<Rightarrow> string \<Rightarrow> store \<Rightarrow> string \<Rightarrow> string \<Rightarrow> json \<Rightarrow> error + (message_row \<times> store)" where
  "insert_message now mid s conversation_id sender_id content =
     (if mid \<in> set (map mr_message_id (messages s)) then Inl (Unhandled ''IntegrityError'')
      else
        Inr (\<lparr>mr_message_id = mid, mr_conversation_id = conversation_id,
              mr_sender_id = sender_id, mr_content = content, mr_timestamp = now\<rparr>,
             s\<lparr>messages := messages s @
                  [\<lparr>mr_message_id = mid, mr_conversation_id = conversation_id,
                    mr_sender_id = sender_id,
                    mr_content = (if truthy content then content else JObj []),
                    mr_timestamp = now\<rparr>]\<rparr>))"

subsection \<open>Rooms and members\<close>

definition is_member_row :: "string \<Rightarrow> string \<Rightarrow> member_row \<Rightarrow> bool" where
  "is_member_row room_id user m \<longleftrightarrow> mb_room_id m = room_id \<and> mb_user_id m = user"

definition room_exists :: "store \<Rightarrow> string \<Rightarrow> bool" where
  "room_exists s room_id = (rooms s room_id \<noteq> None)"

definition get_room :: "store \<Rightarrow> string \<Rightarrow> room_row option" where
  "get_room s room_id = rooms s room_id"

text \<open>
  \<open>create_room\<close>: one transaction (\<open>with self.conn\<close>) inserts the room and then the owner
  as a member with \<open>INSERT OR IGNORE\<close>; an existing room id raises
  \<open>ValueError("Room already exists")\<close>.
\<close>

definition create_room ::
  "int \<Rightarrow> store \<Rightarrow> string \<Rightarrow> string \<Rightarrow> bool \<Rightarrow> string option \<Rightarrow> json \<Rightarrow> string + store" where
  "create_room now s room_id owner encrypted password_hash metadata =
     (if rooms s room_id \<noteq> None then Inl ''Room already exists''
      else
        Inr (s\<lparr>rooms := (rooms s)(room_id \<mapsto>
                   \<lparr>rr_owner = owner, rr_encrypted = encrypted, rr_created_at = now,
                    rr_password_hash = password_hash,
                    rr_metadata = (if truthy metadata then metadata else JObj [])\<rparr>),
               room_members :=
                 (if list_ex (is_member_row room_id owner) (room_members s)
                  then room_members s
                  else room_members s @
                    [\<lparr>mb_room_id = room_id, mb_user_id = owner, mb_joined_at = now\<rparr>])\<rparr>))"

text \<open>
  \<open>add_member\<close>: a plain \<open>INSERT\<close>; the primary key \<open>(room_id, user_id)\<close> and the foreign
  key to \<open>rooms\<close> (\<open>PRAGMA foreign_keys = ON\<close>) both raise \<open>sqlite3.IntegrityError\<close>, which
  the function turns into \<open>ValueError("Room not found")\<close>.
\<close>

definition add_member :: "int \<Rightarrow> store \<Rightarrow> string \<Rightarrow> string \<Rightarrow> string + store" where
  "add_member now s room_id user =
     (if rooms s room_id = None \<or> list_ex (is_member_row room_id user) (room_members s)
      then Inl ''Room not found''
      else Inr (s\<lparr>room_members := room_members s @
                  [\<lparr>mb_room_id = room_id, mb_user_id = user, mb_joined_at = now\<rparr>]\<rparr>))"

definition remove_member :: "store \<Rightarrow> string \<Rightarrow> string \<Rightarrow> store" where
  "remove_member s room_id user =
     s\<lparr>room_members := filter (\<lambda>m. \<not> is_member_row room_id user m) (room_members s)\<rparr>"

definition list_room_members :: "store \<Rightarrow> string \<Rightarrow> string list" where
  "list_room_members s room_id =
     sort (map mb_user_id (filter (\<lambda>m. mb_room_id m = room_id) (room_members s)))"

definition delete_room :: "store \<Rightarrow> string \<Rightarrow> store" where
  "delete_room s room_id =
     s\<lparr>room_members := filter (\<lambda>m. mb_room_id m \<noteq> room_id) (room_members s),
       rooms := (rooms s)(room_id := None)\<rparr>"

subsection \<open>Friend requests and friendships\<close>

text \<open>
  \<open>send_friend_request\<close>: the insert fails on \<open>UNIQUE(from_user, to_user)\<close>; the existing
  row is then set back to \<open>pending\<close> with the new message, and its id is returned.
\<close>

definition same_pair :: "string \<Rightarrow> string \<Rightarrow> request_row \<Rightarrow> bool" where
  "same_pair from_user to_user r \<longleftrightarrow> fr_from_user r = from_user \<and> fr_to_user r = to_user"

definition send_friend_request ::
  "int \<Rightarrow> store \<Rightarrow> string \<Rightarrow> string \<Rightarrow> string option \<Rightarrow> nat \<times> store" where
  "send_friend_request now s from_user to_user message =
     (case find (same_pair from_user to_user) (friend_requests s) of
        None \<Rightarrow>
          (Suc (request_seq s),
           s\<lparr>friend_requests := friend_requests s @
                [\<lparr>fr_id = Suc (request_seq s), fr_from_user = from_user, fr_to_user = to_user,
                  fr_message = message, fr_status = ''pending'', fr_created_at = now,
                  fr_updated_at = now\<rparr>],
             request_seq := Suc (request_seq s)\<rparr>)
      | Some old \<Rightarrow>
          (fr_id old,
           s\<lparr>friend_requests :=
                map (\<lambda>r. if same_pair from_user to_user r
                          then r\<lparr>fr_status := ''pending'', fr_message := message,
                                 fr_updated_at := now\<rparr>
                          else r)
                    (friend_requests s)\<rparr>))"

text \<open>
  \<open>get_pending_friend_requests\<close>: the rows addressed to the user that are pending. The
  source orders them by \<open>created_at DESC\<close>; its callers only search the result by id, and
  the model keeps the order of the table.
\<close>

definition get_pending_friend_requests :: "store \<Rightarrow> string \<Rightarrow> request_row list" where
  "get_pending_friend_requests s user =
     filter (\<lambda>r. fr_to_user r = user \<and> fr_status r = ''pending'') (friend_requests s)"

definition is_friend_row :: "string \<Rightarrow> string \<Rightarrow> friend_row \<Rightarrow> bool" where
  "is_friend_row user1 user2 f \<longleftrightarrow> fd_user1 f = user1 \<and> fd_user2 f = user2"

definition set_status :: "int \<Rightarrow> nat \<Rightarrow> string \<Rightarrow> request_row list \<Rightarrow> request_row list" where
  "set_status now request_id status rows =
     map (\<lambda>r. if fr_id r = request_id then r\<lparr>fr_status := status, fr_updated_at := now\<rparr> else r)
         rows"

text \<open>
  \<open>accept_friend_request\<close>. The insert into \<open>friends\<close> raises \<open>sqlite3.IntegrityError\<close> when
  the pair is already there (primary key) or when \<open>CHECK (user1 < user2)\<close> fails; the
  \<open>except\<close> branch then only sets the status.
\<close>

definition accept_friend_request :: "int \<Rightarrow> store \<Rightarrow> nat \<Rightarrow> bool \<times> store" where
  "accept_friend_request now s request_id =
     (case find (\<lambda>r. fr_id r = request_id \<and> fr_status r = ''pending'') (friend_requests s) of
        None \<Rightarrow> (False, s)
      | Some row \<Rightarrow>
          let from_user = fr_from_user row;
              to_user = fr_to_user row;
              user1 = (if from_user < to_user then from_user else to_user);
              user2 = (if from_user < to_user then to_user else from_user)
          in
          if user1 < user2 \<and> \<not> list_ex (is_friend_row user1 user2) (friends s)
          then
            (True,
             s\<lparr>friends := friends s @
                  [\<lparr>fd_user1 = user1, fd_user2 = user2, fd_created_at = now\<rparr>],
               friend_requests := set_status now request_id ''accepted'' (friend_requests s)\<rparr>)
          else
            (True,
             s\<lparr>friend_requests := set_status now request_id ''accepted'' (friend_requests s)\<rparr>))"

definition reject_friend_request :: "int \<Rightarrow> store \<Rightarrow> nat \<Rightarrow> bool \<times> store" where
  "reject_friend_request now s request_id =
     (list_ex (\<lambda>r. fr_id r = request_id \<and> fr_status r = ''pending'') (friend_requests s),
      s\<lparr>friend_requests :=
           map (\<lambda>r. if fr_id r = request_id \<and> fr_status r = ''pending''
                     then r\<lparr>fr_status := ''rejected'', fr_updated_at := now\<rparr> else r)
               (friend_requests s)\<rparr>)"

definition are_friends :: "store \<Rightarrow> string \<Rightarrow> string \<Rightarrow> bool" where
  "are_friends s user1 user2 =
     (if user1 > user2 then list_ex (is_friend_row user2 user1) (friends s)
      else list_ex (is_friend_row user1 user2) (friends s))"

definition delete_friend :: "store \<Rightarrow> string \<Rightarrow> string \<Rightarrow> bool \<times> store" where
  "delete_friend s user1 user2 =
     (let u1 = (if user1 > user2 then user2 else user1);
          u2 = (if user1 > user2 then user1 else user2)
      in (list_ex (is_friend_row u1 u2) (friends s),
          s\<lparr>friends := filter (\<lambda>f. \<not> is_friend_row u1 u2 f) (friends s)\<rparr>))"

section \<open>Connections (server/core/connection.py, connection\_manager.py)\<close>

text \<open>
  A \<open>ConnectionContext\<close> and its \<open>StreamWriter\<close> are Python objects shared by reference:
  the registry and the handler of the connection hold the same object. The model keeps
  the objects in two heaps indexed by the address of the connection (the context at
  address \<open>c\<close> owns the writer at address \<open>c\<close>); the two indexes of the registry map to
  addresses. A writer either fails on \<open>write\<close>/\<open>drain\<close> (a closed or reset connection) or
  appends the frame to what it has written.
\<close>

record connection_context =
  ctx_peername :: string
  ctx_user_id :: "string option"
  ctx_session_token :: "string option"
  ctx_last_seen :: int

record stream_writer =
  w_failing :: bool
  w_written :: "string list"

record connection_manager =
  contexts :: "nat \<Rightarrow> connection_context"
  writers :: "nat \<Rightarrow> stream_writer"
  by_writer :: "nat \<rightharpoonup> nat"
  by_user :: "string \<rightharpoonup> nat"

text \<open>The registry of a server that has accepted no connection yet.\<close>

definition empty_manager :: connection_manager where
  "empty_manager =
     \<lparr>contexts = (\<lambda>c. \<lparr>ctx_peername = [], ctx_user_id = None, ctx_session_token = None,
                         ctx_last_seen = 0\<rparr>),
      writers = (\<lambda>c. \<lparr>w_failing = False, w_written = []\<rparr>),
      by_writer = Map.empty, by_user = Map.empty\<rparr>"

definition is_authenticated :: "connection_context \<Rightarrow> bool" where
  "is_authenticated ctx = (ctx_user_id ctx \<noteq> None)"

definition touch :: "int \<Rightarrow> connection_context \<Rightarrow> connection_context" where
  "touch now ctx = ctx\<lparr>ctx_last_seen := now\<rparr>"

definition mark_authenticated ::
  "int \<Rightarrow> string \<Rightarrow> string \<Rightarrow> connection_context \<Rightarrow> connection_context" where
  "mark_authenticated now user token ctx =
     touch now (ctx\<lparr>ctx_user_id := Some user, ctx_session_token := Some token\<rparr>)"

definition register :: "connection_manager \<Rightarrow> nat \<Rightarrow> connection_manager" where
  "register cm c = cm\<lparr>by_writer := (by_writer cm)(c \<mapsto> c)\<rparr>"

definition bind_user :: "connection_manager \<Rightarrow> nat \<Rightarrow> connection_manager" where
  "bind_user cm c =
     (case ctx_user_id (contexts cm c) of
        None \<Rightarrow> cm
      | Some u \<Rightarrow> if u = [] then cm else cm\<lparr>by_user := (by_user cm)(u \<mapsto> c)\<rparr>)"

definition unbind_user :: "connection_manager \<Rightarrow> nat \<Rightarrow> connection_manager" where
  "unbind_user cm c =
     (case ctx_user_id (contexts cm c) of
        None \<Rightarrow> cm
      | Some u \<Rightarrow>
          if u \<noteq> [] \<and> by_user cm u = Some c then cm\<lparr>by_user := (by_user cm)(u := None)\<rparr>
          else cm)"

definition unregister :: "connection_manager \<Rightarrow> nat \<Rightarrow> connection_manager" where
  "unregister cm c =
     (case by_writer cm c of
        None \<Rightarrow> cm
      | Some a \<Rightarrow> unbind_user (cm\<lparr>by_writer := (by_writer cm)(c := None)\<rparr>) a)"

text \<open>
  \<open>send_to_user\<close>: no connection bound to the user, a frame that \<open>encode_msg\<close> refuses and
  a writer that fails all give \<open>False\<close> (the source catches every exception).
\<close>

definition send_to_user :: "connection_manager \<Rightarrow> string \<Rightarrow> json \<Rightarrow> bool \<times> connection_manager" where
  "send_to_user cm user message =
     (case by_user cm user of
        None \<Rightarrow> (False, cm)
      | Some c \<Rightarrow>
          (case encode_msg message of
             Inl err \<Rightarrow> (False, cm)
           | Inr data \<Rightarrow>
               if w_failing (writers cm c) then (False, cm)
               else
                 (True,
                  cm\<lparr>writers := (writers cm)
                       (c := (writers cm c)\<lparr>w_written := w_written (writers cm c) @ [data]\<rparr>)\<rparr>)))"

section \<open>Message service (server/services/message\_service.py)\<close>

text \<open>
  A request is the envelope of \<open>shared/protocol/messages.py\<close> (\<open>BaseMsg\<close>). The members
  \<open>id\<close>, \<open>timestamp\<close> and \<open>command\<close> are optional (\<open>None\<close> when the key is absent) and hold any
  JSON value; the headers are a dictionary (\<open>None\<close> when the key is absent or \<open>null\<close>), and
  the payload is a record of the members of the command's payload class, each optional
  (\<open>None\<close> when absent or \<open>null\<close>). A missing payload is the payload with no member. \<open>MessageSendPayload\<close> has \<open>conversation_id: str\<close>, \<open>target: Dict\<close> with the
  members \<open>type\<close> and \<open>id\<close>, and \<open>content\<close>; an absent content is \<open>JNull\<close>.
\<close>

record 'p message =
  m_id :: "json option"
  m_timestamp :: "json option"
  m_command :: "json option"
  m_headers :: "(string \<times> json) list option"
  m_payload :: 'p

record target =
  tg_type :: "string option"
  tg_id :: "string option"

record send_payload =
  sp_conversation_id :: "string option"
  sp_target :: "target option"
  sp_content :: json

text \<open>\<open>message.get("headers", {}) or {}\<close> followed by \<open>setdefault("version", "1.0")\<close>.\<close>

definition headers_with_version :: "'p message \<Rightarrow> (string \<times> json) list" where
  "headers_with_version message =
     setdefault (case m_headers message of None \<Rightarrow> [] | Some h \<Rightarrow> h) ''version''
       (JStr DEFAULT_VERSION)"

definition json_of_opt :: "json option \<Rightarrow> json" where
  "json_of_opt x = (case x of None \<Rightarrow> JNull | Some v \<Rightarrow> v)"

definition message_ack :: "int \<Rightarrow> json \<Rightarrow> (string \<times> json) list \<Rightarrow> string \<Rightarrow> json" where
  "message_ack now request_id headers message_id =
     JObj [(''id'', request_id), (''type'', JStr ''response''), (''timestamp'', JInt now),
           (''command'', JStr ''message/ack''), (''headers'', JObj headers),
           (''payload'', JObj [(''status'', JInt (status_int SUCCESS)),
                               (''message_id'', JStr message_id)])]"

definition message_event ::
  "message_row \<Rightarrow> (string \<times> json) list \<Rightarrow> string \<Rightarrow> string \<Rightarrow> json \<Rightarrow> json" where
  "message_event stored headers convo_id sender content =
     JObj [(''id'', JStr (mr_message_id stored)), (''type'', JStr ''event''),
           (''timestamp'', JInt (mr_timestamp stored)), (''command'', JStr ''message/event''),
           (''headers'', JObj headers),
           (''payload'', JObj [(''conversation_id'', JStr convo_id),
                               (''sender_id'', JStr sender),
                               (''content'', content),
                               (''message_id'', JStr (mr_message_id stored))])]"

definition deliver_to_user ::
  "int \<Rightarrow> store \<times> connection_manager \<Rightarrow> string option \<Rightarrow> json \<Rightarrow>
   bool \<times> store \<times> connection_manager" where
  "deliver_to_user now w user event =
     (case w of (repo, cm) \<Rightarrow>
        if falsy_str user then (False, repo, cm)
        else
          (case send_to_user cm (the user) event of
             (delivered, cm') \<Rightarrow>
               if \<not> delivered
               then (False, enqueue_offline_message now repo (the user) event, cm')
               else (True, repo, cm')))"

text \<open>The loop of \<open>_deliver_to_room\<close> over the members of the room.\<close>

fun deliver_to_members ::
  "int \<Rightarrow> string \<Rightarrow> json \<Rightarrow> string list \<Rightarrow> store \<times> connection_manager \<Rightarrow>
   store \<times> connection_manager" where
  "deliver_to_members now sender event [] w = w"
| "deliver_to_members now sender event (member # rest) w =
     (if member = sender then deliver_to_members now sender event rest w
      else deliver_to_members now sender event rest
             (snd (deliver_to_user now w (Some member) event)))"

definition deliver_to_room ::
  "int \<Rightarrow> store \<times> connection_manager \<Rightarrow> string \<Rightarrow> string option \<Rightarrow> json \<Rightarrow>
   (error + unit) \<times> store \<times> connection_manager" where
  "deliver_to_room now w sender room_id event =
     (case w of (repo, cm) \<Rightarrow>
        if falsy_str room_id
        then (Inl (ProtocolError BAD_REQUEST None ''Missing room_id in target''), repo, cm)
        else if \<not> room_exists repo (the room_id)
        then (Inl (ProtocolError NOT_FOUND None ''Room not found''), repo, cm)
        else
          let members = list_room_members repo (the room_id) in
          if sender \<notin> set members
          then (Inl (ProtocolError FORBIDDEN None ''Sender not in room''), repo, cm)
          else (Inr (), deliver_to_members now sender event members (repo, cm)))"

text \<open>
  \<open>handle_send\<close>. \<open>now\<close> is the clock, \<open>mid\<close> the fresh \<open>uuid4().hex\<close> and \<open>c\<close> the address of
  the connection context the handler is called with. The result is the
  exception raised or the ack returned, with the store and the registry as the handler
  leaves them: what was written before an exception stays written.
\<close>

definition handle_send ::
  "int \<Rightarrow> string \<Rightarrow> send_payload message \<Rightarrow> nat \<Rightarrow>
   store \<times> connection_manager \<Rightarrow> (error + json) \<times> store \<times> connection_manager" where
  "handle_send now mid message c w =
     (case w of (repo, cm) \<Rightarrow>
        (case ctx_user_id (contexts cm c) of
           None \<Rightarrow> (Inl (ProtocolError UNAUTHORIZED None ''Unauthenticated''), repo, cm)
         | Some sender \<Rightarrow>
             let payload = m_payload message in
             if falsy_str (sp_conversation_id payload)
             then (Inl (ProtocolError BAD_REQUEST None ''Missing conversation_id''), repo, cm)
             else
               let convo_id = the (sp_conversation_id payload) in
               (case insert_message now mid repo convo_id sender (sp_content payload) of
                  Inl err \<Rightarrow> (Inl err, repo, cm)
                | Inr (stored, repo1) \<Rightarrow>
                    let headers = headers_with_version message in
                    (case m_id message of
                       None \<Rightarrow> (Inl (Unhandled ''KeyError''), repo1, cm)
                     | Some request_id \<Rightarrow>
                         let ack = message_ack now request_id headers (mr_message_id stored);
                             tgt = (case sp_target payload of
                                      None \<Rightarrow> \<lparr>tg_type = None, tg_id = None\<rparr>
                                    | Some t \<Rightarrow> t);
                             event = message_event stored headers convo_id sender
                                       (sp_content payload)
                         in
                         if tg_type tgt = Some ''user''
                         then
                           (case deliver_to_user now (repo1, cm) (tg_id tgt) event of
                              (delivered, w') \<Rightarrow> (Inr ack, w'))
                         else if tg_type tgt = Some ''room''
                         then
                           (case deliver_to_room now (repo1, cm) sender (tg_id tgt) event of
                              (Inl err, w') \<Rightarrow> (Inl err, w')
                            | (Inr u, w') \<Rightarrow> (Inr ack, w'))
                         else (Inr ack, repo1, cm)))))"

section \<open>Validation and the server loop (shared/protocol/validator.py, server/core/server.py)\<close>

text \<open>
  \<open>validate_version\<close>; \<open>header_version\<close> is its \<open>(headers or {}).get("version", "0.0")\<close>
  for the headers of a message record, which are a dictionary, or \<open>None\<close> when the frame
  has no headers or a falsy value there. Headers that are any other value make \<open>.get\<close>
  raise \<open>AttributeError\<close>: that case is \<open>frame_headers\<close> below, which the loop goes through
  before it has a message record. The text of the error is an f-string of the version
  found; Python's \<open>str\<close> on a decoded value is the parameter \<open>py_str\<close>.
\<close>

definition header_version :: "(string \<times> json) list option \<Rightarrow> json" where
  "header_version headers =
     (case map_of (case headers of None \<Rightarrow> [] | Some h \<Rightarrow> h) ''version'' of
        None \<Rightarrow> JStr ''0.0''
      | Some v \<Rightarrow> v)"

definition validate_version ::
  "(json \<Rightarrow> string) \<Rightarrow> (string \<times> json) list option \<Rightarrow> error + unit" where
  "validate_version py_str headers =
     (let version = header_version headers in
      if version \<noteq> JStr DEFAULT_VERSION
      then Inl (ProtocolError UPGRADE_REQUIRED (Some VERSION_MISMATCH)
                  (''Protocol version mismatch: expected '' @ DEFAULT_VERSION @ '', got '' @
                   py_str version))
      else Inr ())"

text \<open>
  \<open>validate_msg\<close>. The schema files of \<open>SCHEMA_REGISTRY\<close> are not part of the sources, so
  the outcome of \<open>jsonschema.validate\<close> against the schema of the command is the parameter
  \<open>schema_check\<close>: \<open>None\<close> when the command has no schema or the message passes, the text of
  the \<open>ValidationError\<close> otherwise.
\<close>

definition validate_msg ::
  "(json \<Rightarrow> string) \<Rightarrow> ('p message \<Rightarrow> string option) \<Rightarrow> 'p message \<Rightarrow> error + unit" where
  "validate_msg py_str schema_check msg =
     (case validate_version py_str (m_headers msg) of
        Inl err \<Rightarrow> Inl err
      | Inr u \<Rightarrow>
          (case schema_check msg of
             None \<Rightarrow> Inr ()
           | Some text \<Rightarrow>
               Inl (ProtocolError BAD_REQUEST (Some PARAM_MISSING)
                      (''Schema validation failed: '' @ text))))"

definition ERROR_COMMAND_MAP :: "string \<rightharpoonup> string" where
  "ERROR_COMMAND_MAP =
     [''auth/login'' \<mapsto> ''auth/login_ack'',
      ''auth/refresh'' \<mapsto> ''auth/refresh_ack'',
      ''message/send'' \<mapsto> ''message/ack'']"

text \<open>
  \<open>_error_response(request, error)\<close>; the request is \<open>None\<close> for the empty dictionary the
  loop starts from when no frame was decoded.
\<close>

definition error_response ::
  "'p message option \<Rightarrow> StatusCode \<Rightarrow> ErrorCode option \<Rightarrow> string \<Rightarrow> json" where
  "error_response request status code text =
     (let headers =
            setdefault (case request of None \<Rightarrow> []
                        | Some req \<Rightarrow> (case m_headers req of None \<Rightarrow> [] | Some h \<Rightarrow> h))
              ''version'' (JStr DEFAULT_VERSION);
          command_key = (case request of None \<Rightarrow> None | Some req \<Rightarrow> m_command req);
          command =
            (case command_key of
               Some (JStr k) \<Rightarrow>
                 (case ERROR_COMMAND_MAP k of None \<Rightarrow> JStr k | Some ack \<Rightarrow> JStr ack)
             | other \<Rightarrow> json_of_opt other)
      in
      JObj [(''id'', json_of_opt (case request of None \<Rightarrow> None | Some req \<Rightarrow> m_id req)),
            (''type'', JStr ''response''),
            (''timestamp'',
               json_of_opt (case request of None \<Rightarrow> None | Some req \<Rightarrow> m_timestamp req)),
            (''command'', command),
            (''headers'', JObj headers),
            (''payload'', to_payload status code text)])"

text \<open>
  A handler takes the message, the address of the connection context, and the state (the
  registry and the state of the services); it raises or returns a response or \<open>None\<close>, and
  leaves a state in either case. \<open>CommandRouter.dispatch\<close> looks the handler up by the
  command; a command without a handler is ignored.
\<close>

type_synonym ('p, 'st) handler =
  "'p message \<Rightarrow> nat \<Rightarrow> connection_manager \<times> 'st \<Rightarrow>
   (error + json option) \<times> connection_manager \<times> 'st"

definition dispatch ::
  "(string \<rightharpoonup> ('p, 'st) handler) \<Rightarrow> 'p message \<Rightarrow> nat \<Rightarrow> connection_manager \<times> 'st \<Rightarrow>
   (error + json option) \<times> connection_manager \<times> 'st" where
  "dispatch router message c w =
     (case m_command message of
        Some (JStr command) \<Rightarrow>
          (case router command of None \<Rightarrow> (Inr None, w) | Some handler \<Rightarrow> handler message c w)
      | other \<Rightarrow> (Inr None, w))"

text \<open>
  \<open>message.get("command", "")\<close>, the argument of \<open>load_schema\<close>. \<open>load_schema\<close> is cached
  (\<open>lru_cache\<close>), so a command that is a list or a dictionary raises \<open>TypeError\<close> before
  anything is validated; for every other command it returns the schema or \<open>None\<close>.
\<close>

definition requested_command :: "'p message \<Rightarrow> json" where
  "requested_command message = (case m_command message of None \<Rightarrow> JStr [] | Some k \<Rightarrow> k)"

text \<open>
  The body of the loop of \<open>_handle_client\<close> for one decoded message, up to the call of
  \<open>_send\<close>: \<open>Response r\<close> when the handler's response \<open>r\<close> is sent from the \<open>try\<close> block,
  \<open>ErrorResponse r\<close> when a \<open>ProtocolError\<close> was caught and its response \<open>r\<close> is sent from
  the \<open>except\<close> clause, \<open>Quiet\<close> when nothing is sent, and \<open>Closed\<close> when any other
  exception leaves the loop and the connection is torn down.
\<close>

datatype 'w step =
    Response json 'w
  | ErrorResponse json 'w
  | Quiet 'w
  | Closed string 'w

definition touch_ctx :: "int \<Rightarrow> nat \<Rightarrow> connection_manager \<Rightarrow> connection_manager" where
  "touch_ctx now c cm = cm\<lparr>contexts := (contexts cm)(c := touch now (contexts cm c))\<rparr>"

definition process_message ::
  "(json \<Rightarrow> string) \<Rightarrow> ('p message \<Rightarrow> string option) \<Rightarrow> (string \<rightharpoonup> ('p, 'st) handler) \<Rightarrow>
   int \<Rightarrow> 'p message \<Rightarrow> nat \<Rightarrow> connection_manager \<times> 'st \<Rightarrow> (connection_manager \<times> 'st) step" where
  "process_message py_str schema_check router now message c w =
     (if \<not> hashable (requested_command message) then Closed ''TypeError'' w
      else
        (case validate_msg py_str schema_check message of
           Inl (ProtocolError status code text) \<Rightarrow>
             ErrorResponse (error_response (Some message) status code text) w
         | Inl (Unhandled e) \<Rightarrow> Closed e w
         | Inr u \<Rightarrow>
             (case dispatch router message c (touch_ctx now c (fst w), snd w) of
                (Inl (ProtocolError status code text), w') \<Rightarrow>
                  ErrorResponse (error_response (Some message) status code text) w'
              | (Inl (Unhandled e), w') \<Rightarrow> Closed e w'
              | (Inr None, w') \<Rightarrow> Quiet w'
              | (Inr (Some r), w') \<Rightarrow> if truthy r then Response r w' else Quiet w')))"

text \<open>
  \<open>_send\<close>: \<open>encode_msg\<close> may raise its \<open>ProtocolError\<close>; a failing writer raises an
  \<open>OSError\<close>.
\<close>

definition send :: "connection_manager \<Rightarrow> nat \<Rightarrow> json \<Rightarrow> error + connection_manager" where
  "send cm c message =
     (case encode_msg message of
        Inl err \<Rightarrow> Inl err
      | Inr data \<Rightarrow>
          if w_failing (writers cm c) then Inl (Unhandled ''OSError'')
          else Inr (cm\<lparr>writers := (writers cm)
                      (c := (writers cm c)\<lparr>w_written := w_written (writers cm c) @ [data]\<rparr>)\<rparr>))"

text \<open>
  One turn of the loop for a decoded message, with the writes. The result says whether
  the loop goes on (\<open>True\<close>) or the connection is torn down (\<open>False\<close>). A \<open>ProtocolError\<close>
  of \<open>_send\<close> in the \<open>try\<close> block is caught like any other and answered; an exception of
  \<open>_send\<close> in the \<open>except\<close> clause leaves the loop.
\<close>

definition loop_turn ::
  "(json \<Rightarrow> string) \<Rightarrow> ('p message \<Rightarrow> string option) \<Rightarrow> (string \<rightharpoonup> ('p, 'st) handler) \<Rightarrow>
   int \<Rightarrow> 'p message \<Rightarrow> nat \<Rightarrow> connection_manager \<times> 'st \<Rightarrow> bool \<times> connection_manager \<times> 'st" where
  "loop_turn py_str schema_check router now message c w =
     (case process_message py_str schema_check router now message c w of
        Quiet w' \<Rightarrow> (True, w')
      | Closed e w' \<Rightarrow> (False, w')
      | ErrorResponse r (cm, st) \<Rightarrow>
          (case send cm c r of
             Inl err \<Rightarrow> (False, cm, st)
           | Inr cm' \<Rightarrow> (True, cm', st))
      | Response r (cm, st) \<Rightarrow>
          (case send cm c r of
             Inr cm' \<Rightarrow> (True, cm', st)
           | Inl (Unhandled e) \<Rightarrow> (False, cm, st)
           | Inl (ProtocolError status code text) \<Rightarrow>
               (case send cm c (error_response (Some message) status code text) of
                  Inl err \<Rightarrow> (False, cm, st)
                | Inr cm' \<Rightarrow> (True, cm', st))))"

text \<open>
  The loop from the value \<open>decode_msg\<close> returned. Nothing checks that value before
  \<open>message.get("command", "")\<close>: a frame that is not a JSON object raises
  \<open>AttributeError\<close>. \<open>frame_headers\<close> is \<open>(headers or {})\<close> as \<open>validate_version\<close> and
  \<open>_error_response\<close> use it: \<open>None\<close> for no headers or a falsy value, the dictionary when
  it is one, and \<open>AttributeError\<close> for any other value (a non-empty string or list, a
  non-zero number, \<open>true\<close>). Neither exception is a \<open>ProtocolError\<close>: the loop ends and
  the connection is closed without a response. \<open>payload_of\<close> reads the payload record of
  the handlers from the frame.
\<close>

definition frame_headers :: "json option \<Rightarrow> error + (string \<times> json) list option" where
  "frame_headers headers =
     (case headers of
        None \<Rightarrow> Inr None
      | Some h \<Rightarrow>
          if \<not> truthy h then Inr None
          else (case h of
                  JObj d \<Rightarrow> Inr (Some d)
                | other \<Rightarrow> Inl (Unhandled ''AttributeError'')))"

definition message_of ::
  "((string \<times> json) list \<Rightarrow> 'p) \<Rightarrow> (string \<times> json) list \<Rightarrow> (string \<times> json) list option \<Rightarrow>
   'p message" where
  "message_of payload_of frame headers =
     \<lparr>m_id = map_of frame ''id'', m_timestamp = map_of frame ''timestamp'',
      m_command = map_of frame ''command'', m_headers = headers,
      m_payload = payload_of frame\<rparr>"

definition process_frame ::
  "(json \<Rightarrow> string) \<Rightarrow> ('p message \<Rightarrow> string option) \<Rightarrow> (string \<rightharpoonup> ('p, 'st) handler) \<Rightarrow>
   int \<Rightarrow> ((string \<times> json) list \<Rightarrow> 'p) \<Rightarrow> json \<Rightarrow> nat \<Rightarrow> connection_manager \<times> 'st \<Rightarrow>
   (connection_manager \<times> 'st) step" where
  "process_frame py_str schema_check router now payload_of decoded c w =
     (case decoded of
        JObj frame \<Rightarrow>
          (case frame_headers (map_of frame ''headers'') of
             Inl err \<Rightarrow>
               if \<not> hashable (case map_of frame ''command'' of None \<Rightarrow> JStr [] | Some k \<Rightarrow> k)
               then Closed ''TypeError'' w
               else Closed ''AttributeError'' w
           | Inr headers \<Rightarrow>
               process_message py_str schema_check router now
                 (message_of payload_of frame headers) c w)
      | other \<Rightarrow> Closed ''AttributeError'' w)"

definition frame_turn ::
  "(json \<Rightarrow> string) \<Rightarrow> ('p message \<Rightarrow> string option) \<Rightarrow> (string \<rightharpoonup> ('p, 'st) handler) \<Rightarrow>
   int \<Rightarrow> ((string \<times> json) list \<Rightarrow> 'p) \<Rightarrow> json \<Rightarrow> nat \<Rightarrow> connection_manager \<times> 'st \<Rightarrow>
   bool \<times> connection_manager \<times> 'st" where
  "frame_turn py_str schema_check router now payload_of decoded c w =
     (case decoded of
        JObj frame \<Rightarrow>
          (case frame_headers (map_of frame ''headers'') of
             Inl err \<Rightarrow> (False, w)
           | Inr headers \<Rightarrow>
               loop_turn py_str schema_check router now
                 (message_of payload_of frame headers) c w)
      | other \<Rightarrow> (False, w))"

section \<open>Auth service (server/services/auth\_service.py)\<close>

text \<open>
  The payload of \<open>auth/register\<close>: \<open>payload.get("username")\<close> and
  \<open>payload.get("password")\<close>, whatever JSON values they are (\<open>None\<close> for a missing key).
\<close>

record login_payload =
  lp_username :: "json option"
  lp_password :: "json option"

definition falsy :: "json option \<Rightarrow> bool" where
  "falsy x = (case x of None \<Rightarrow> True | Some v \<Rightarrow> \<not> truthy v)"

text \<open>
  \<open>_login_response\<close>. \<open>error\<close> and \<open>code\<close> are added to the payload when they are truthy; an
  \<open>ErrorCode\<close> is a non-zero integer, so a code that is given is always added.
\<close>

definition login_response ::
  "int \<Rightarrow> 'p message \<Rightarrow> StatusCode \<Rightarrow> string \<Rightarrow> json \<Rightarrow> int \<Rightarrow> string option \<Rightarrow>
   ErrorCode option \<Rightarrow> string option \<Rightarrow> json" where
  "login_response now message status token user expires err code command =
     JObj [(''id'', json_of_opt (m_id message)),
           (''type'', JStr ''response''),
           (''timestamp'', JInt now),
           (''command'',
              JStr (if falsy_str command then ''auth/login_ack'' else the command)),
           (''headers'', JObj (headers_with_version message)),
           (''payload'',
              JObj ([(''status'', JInt (status_int status)), (''token'', JStr token),
                     (''user_id'', user), (''expires_in'', JInt expires)] @
                    (if falsy_str err then [] else [(''error_message'', JStr (the err))]) @
                    (case code of None \<Rightarrow> [] | Some k \<Rightarrow> [(''error_code'', JInt (code_int k))])))]"

definition register_conflict :: "int \<Rightarrow> 'p message \<Rightarrow> json" where
  "register_conflict now message =
     login_response now message CONFLICT [] (JStr []) 0 (Some ''User already exists'')
       (Some USER_EXISTS) (Some ''auth/register_ack'')"

text \<open>
  \<open>handle_register\<close>. \<open>user_exists\<close> is called outside the \<open>try\<close>: what it raises leaves the
  handler. \<open>create_user\<close> is called inside \<open>try ... except ValueError\<close>: every
  \<open>ValueError\<close> it raises, the one for a name that is taken and the \<open>UnicodeEncodeError\<close> of
  a value without UTF-8 encoding alike, is answered with the conflict response.
\<close>

definition handle_register ::
  "int \<Rightarrow> login_payload message \<Rightarrow> nat \<Rightarrow> store \<times> connection_manager \<Rightarrow>
   (error + json) \<times> store \<times> connection_manager" where
  "handle_register now message c w =
     (case w of (repo, cm) \<Rightarrow>
        let payload = m_payload message;
            username = lp_username payload;
            password = lp_password payload
        in
        if falsy username \<or> falsy password
        then (Inl (ProtocolError BAD_REQUEST None ''Missing credentials''), repo, cm)
        else
          (case user_exists repo (the username) of
             Inl err \<Rightarrow> (Inl err, repo, cm)
           | Inr found \<Rightarrow>
               if found then (Inr (register_conflict now message), repo, cm)
               else
                 (case create_user now repo (the username) (the password) of
                    Inl err \<Rightarrow>
                      if is_value_error err
                      then (Inr (register_conflict now message), repo, cm)
                      else (Inl err, repo, cm)
                  | Inr repo' \<Rightarrow>
                      (Inr (login_response now message SUCCESS [] (the username) 0 None None
                              (Some ''auth/register_ack'')),
                       repo', cm))))"

text \<open>A register request with a username and a password that are strings.\<close>

definition register_message :: "string \<Rightarrow> string \<Rightarrow> login_payload message" where
  "register_message u pw =
     \<lparr>m_id = Some (JStr ''1''), m_timestamp = Some (JInt 1),
      m_command = Some (JStr ''auth/register''),
      m_headers = Some [(''version'', JStr ''1.0'')],
      m_payload = \<lparr>lp_username = Some (JStr u), lp_password = Some (JStr pw)\<rparr>\<rparr>"

section \<open>Notions used to state the properties of the message service\<close>

text \<open>
  \<open>live cm user event\<close>: \<open>send_to_user\<close> returns \<open>True\<close> for this user and event.
  \<open>frame_of event\<close>: the frame \<open>encode_msg\<close> makes of the event when it accepts it.
  \<open>members_ok\<close>: the primary key \<open>(room_id, user_id)\<close> of the table \<open>room_members\<close>.
  \<open>same_wiring\<close>: two registries bind the same users to the same connections, and the same
  writers fail. \<open>served sender m\<close>: the loop of \<open>_deliver_to_room\<close> does not skip member \<open>m\<close>.
\<close>

definition live :: "connection_manager \<Rightarrow> string \<Rightarrow> json \<Rightarrow> bool" where
  "live cm user event = fst (send_to_user cm user event)"

definition frame_of :: "json \<Rightarrow> string" where
  "frame_of event = json_dumps event @ FRAME_DELIMITER"

definition members_ok :: "store \<Rightarrow> bool" where
  "members_ok s \<longleftrightarrow> distinct (map (\<lambda>m. (mb_room_id m, mb_user_id m)) (room_members s))"

definition same_wiring :: "connection_manager \<Rightarrow> connection_manager \<Rightarrow> bool" where
  "same_wiring cm cm' \<longleftrightarrow>
     by_user cm' = by_user cm \<and> (\<forall>c. w_failing (writers cm' c) = w_failing (writers cm c))"

definition served :: "string \<Rightarrow> string \<Rightarrow> bool" where
  "served sender m \<longleftrightarrow> m \<noteq> sender \<and> m \<noteq> []"

text \<open>
  The target of a send, \<open>payload.get("target") or {}\<close>, and the event \<open>handle_send\<close> builds
  for the message it stored.
\<close>

definition target_of :: "send_payload \<Rightarrow> target" where
  "target_of payload =
     (case sp_target payload of None \<Rightarrow> \<lparr>tg_type = None, tg_id = None\<rparr> | Some t \<Rightarrow> t)"

definition send_event :: "int \<Rightarrow> string \<Rightarrow> send_payload message \<Rightarrow> string \<Rightarrow> json" where
  "send_event now mid message sender =
     message_event
       \<lparr>mr_message_id = mid,
        mr_conversation_id = the (sp_conversation_id (m_payload message)),
        mr_sender_id = sender, mr_content = sp_content (m_payload message),
        mr_timestamp = now\<rparr>
       (headers_with_version message) (the (sp_conversation_id (m_payload message))) sender
       (sp_content (m_payload message))"

text \<open>
  The intended recipients of a send: the target user, or each member of the target room
  other than the sender.
\<close>

definition intended_recipients :: "store \<Rightarrow> string \<Rightarrow> target \<Rightarrow> string list" where
  "intended_recipients repo sender tgt =
     (if tg_type tgt = Some ''user''
      then (case tg_id tgt of None \<Rightarrow> [] | Some u \<Rightarrow> [u])
      else if tg_type tgt = Some ''room''
      then (case tg_id tgt of
              None \<Rightarrow> []
            | Some room \<Rightarrow> filter (\<lambda>m. m \<noteq> sender) (list_room_members repo room))
      else [])"

text \<open>
  A concrete state: the room \<open>r1\<close> of alice, bob and carol; alice is bound to connection 0,
  bob to connection 1, carol is not connected. The message is alice's send to the room.
\<close>

definition demo_store :: store where
  "demo_store =
     empty_store
       \<lparr>rooms := [''r1'' \<mapsto> \<lparr>rr_owner = ''alice'', rr_encrypted = False, rr_created_at = 1,
                               rr_password_hash = None, rr_metadata = JObj []\<rparr>],
        room_members :=
          [\<lparr>mb_room_id = ''r1'', mb_user_id = ''alice'', mb_joined_at = 1\<rparr>,
           \<lparr>mb_room_id = ''r1'', mb_user_id = ''bob'', mb_joined_at = 2\<rparr>,
           \<lparr>mb_room_id = ''r1'', mb_user_id = ''carol'', mb_joined_at = 3\<rparr>]\<rparr>"

definition demo_manager :: connection_manager where
  "demo_manager =
     empty_manager
       \<lparr>contexts := (contexts empty_manager)
           (0 := \<lparr>ctx_peername = ''a'', ctx_user_id = Some ''alice'',
                   ctx_session_token = Some ''t0'', ctx_last_seen = 1\<rparr>,
            1 := \<lparr>ctx_peername = ''b'', ctx_user_id = Some ''bob'',
                   ctx_session_token = Some ''t1'', ctx_last_seen = 1\<rparr>),
        by_writer := [0 \<mapsto> 0, 1 \<mapsto> 1],
        by_user := [''alice'' \<mapsto> 0, ''bob'' \<mapsto> 1]\<rparr>"

definition demo_message :: "send_payload message" where
  "demo_message =
     \<lparr>m_id = Some (JStr ''1''), m_timestamp = Some (JInt 1),
      m_command = Some (JStr ''message/send''),
      m_headers = Some [(''version'', JStr ''1.0'')],
      m_payload =
        \<lparr>sp_conversation_id = Some ''r1'',
         sp_target = Some \<lparr>tg_type = Some ''room'', tg_id = Some ''r1''\<rparr>,
         sp_content = JObj [(''text'', JStr ''hello'')]\<rparr>\<rparr>"

text \<open>Alice's send to a user target whose id is the empty string.\<close>

definition empty_target_message :: "send_payload message" where
  "empty_target_message =
     \<lparr>m_id = Some (JStr ''2''), m_timestamp = Some (JInt 1),
      m_command = Some (JStr ''message/send''),
      m_headers = Some [(''version'', JStr ''1.0'')],
      m_payload =
        \<lparr>sp_conversation_id = Some ''dm'',
         sp_target = Some \<lparr>tg_type = Some ''user'', tg_id = Some []\<rparr>,
         sp_content = JObj [(''text'', JStr ''hello'')]\<rparr>\<rparr>"

text \<open>
  \<open>handle_send\<close> as the router holds it (\<open>router.register(MsgType.MESSAGE_SEND,
  message_service.handle_send)\<close> in server/main.py), with the clock and the fresh id fixed.
\<close>

definition send_handler :: "int \<Rightarrow> string \<Rightarrow> (send_payload, store) handler" where
  "send_handler now mid message c w =
     (case w of (cm, repo) \<Rightarrow>
        (case handle_send now mid message c (repo, cm) of
           (Inl err, repo', cm') \<Rightarrow> (Inl err, cm', repo')
         | (Inr ack, repo', cm') \<Rightarrow> (Inr (Some ack), cm', repo')))"

section \<open>Friend service (server/services/friend\_service.py)\<close>

text \<open>
  The payloads: \<open>friend/request\<close> carries \<open>target_id\<close> and \<open>message\<close>, \<open>friend/accept\<close> and
  \<open>friend/reject\<close> carry the integer \<open>request_id\<close>, \<open>friend/delete\<close> carries \<open>friend_id\<close>.
\<close>

record friend_payload =
  fp_target_id :: "string option"
  fp_message :: "string option"
  fp_request_id :: "nat option"
  fp_friend_id :: "string option"

text \<open>
  \<open>_notify_user\<close>: the event is written to the connection bound to the user, if there is
  one; every failure is logged and dropped. \<open>eid\<close> is the fresh \<open>uuid4().hex[:8]\<close>.
\<close>

definition friend_event :: "int \<Rightarrow> string \<Rightarrow> string \<Rightarrow> json \<Rightarrow> json" where
  "friend_event now eid command payload =
     JObj [(''id'', JStr eid), (''type'', JStr ''event''), (''timestamp'', JInt now),
           (''command'', JStr command), (''headers'', JObj [(''version'', JStr ''1.0'')]),
           (''payload'', payload)]"

definition notify_user ::
  "int \<Rightarrow> string \<Rightarrow> connection_manager \<Rightarrow> string \<Rightarrow> string \<Rightarrow> json \<Rightarrow> connection_manager" where
  "notify_user now eid cm user command payload =
     snd (send_to_user cm user (friend_event now eid command payload))"

text \<open>
  \<open>_ok_response\<close> reads \<open>request["id"]\<close>, which raises \<open>KeyError\<close> when the id is absent;
  \<open>_error_response\<close> reads it with \<open>.get\<close>.
\<close>

definition friend_ok_response ::
  "int \<Rightarrow> 'p message \<Rightarrow> string \<Rightarrow> (string \<times> json) list \<Rightarrow> error + json" where
  "friend_ok_response now request command payload =
     (case m_id request of
        None \<Rightarrow> Inl (Unhandled ''KeyError'')
      | Some request_id \<Rightarrow>
          Inr (JObj [(''id'', request_id), (''type'', JStr ''response''),
                     (''timestamp'', JInt now), (''command'', JStr command),
                     (''headers'', JObj (headers_with_version request)),
                     (''payload'', JObj ((''status'', JInt (status_int SUCCESS)) # payload))]))"

definition friend_error_response :: "int \<Rightarrow> 'p message \<Rightarrow> StatusCode \<Rightarrow> string \<Rightarrow> json" where
  "friend_error_response now message status error_msg =
     JObj [(''id'', json_of_opt (m_id message)), (''type'', JStr ''response''),
           (''timestamp'', JInt now),
           (''command'', (case m_command message of None \<Rightarrow> JStr ''unknown'' | Some k \<Rightarrow> k)),
           (''headers'', JObj (headers_with_version message)),
           (''payload'', JObj [(''status'', JInt (status_int status)),
                               (''error_message'', JStr error_msg)])]"

text \<open>
  \<open>handle_request\<close>. The checks run in the order of the source: the target exists, the two
  are not friends yet, the target is not the requester.
\<close>

definition handle_request ::
  "int \<Rightarrow> string \<Rightarrow> friend_payload message \<Rightarrow> nat \<Rightarrow> store \<times> connection_manager \<Rightarrow>
   (error + json) \<times> store \<times> connection_manager" where
  "handle_request now eid message c w =
     (case w of (repo, cm) \<Rightarrow>
        let user = ctx_user_id (contexts cm c) in
        if falsy_str user
        then (Inr (friend_error_response now message UNAUTHORIZED ''Not authenticated''), repo, cm)
        else
          let payload = m_payload message;
              target_id = fp_target_id payload;
              request_message = (case fp_message payload of None \<Rightarrow> [] | Some t \<Rightarrow> t)
          in
          if falsy_str target_id
          then (Inr (friend_error_response now message BAD_REQUEST ''Missing target_id''), repo, cm)
          else
            (case user_exists repo (JStr (the target_id)) of
               Inl err \<Rightarrow> (Inl err, repo, cm)
             | Inr found \<Rightarrow>
                if \<not> found
                then (Inr (friend_error_response now message NOT_FOUND ''User not found''),
                      repo, cm)
                else if are_friends repo (the user) (the target_id)
                then (Inr (friend_error_response now message CONFLICT ''Already friends''),
                      repo, cm)
                else if the user = the target_id
                then (Inr (friend_error_response now message BAD_REQUEST
                             ''Cannot send friend request to yourself''), repo, cm)
                else
                  (case send_friend_request now repo (the user) (the target_id)
                          (Some request_message) of
                     (request_id, repo') \<Rightarrow>
                       let cm' = notify_user now eid cm (the target_id) ''friend/event''
                                   (JObj [(''event_type'', JStr ''new_request''),
                                          (''from_user'', JStr (the user)),
                                          (''request_id'', JInt (int request_id)),
                                          (''message'', JStr request_message)])
                       in
                       (friend_ok_response now message ''friend/request_ack''
                          [(''request_id'', JInt (int request_id)),
                           (''message'', JStr ''Friend request sent'')],
                        repo', cm'))))"

text \<open>
  \<open>handle_accept\<close>. Only a request that is pending and addressed to the caller is found.
  \<open>StatusCode.SERVER_ERROR\<close> does not exist, so the branch for a failed accept raises
  \<open>AttributeError\<close>.
\<close>

definition handle_accept ::
  "int \<Rightarrow> string \<Rightarrow> friend_payload message \<Rightarrow> nat \<Rightarrow> store \<times> connection_manager \<Rightarrow>
   (error + json) \<times> store \<times> connection_manager" where
  "handle_accept now eid message c w =
     (case w of (repo, cm) \<Rightarrow>
        let user = ctx_user_id (contexts cm c) in
        if falsy_str user
        then (Inr (friend_error_response now message UNAUTHORIZED ''Not authenticated''), repo, cm)
        else
          (case fp_request_id (m_payload message) of
             None \<Rightarrow>
               (Inr (friend_error_response now message BAD_REQUEST ''Missing request_id''), repo, cm)
           | Some request_id \<Rightarrow>
               if request_id = 0
               then (Inr (friend_error_response now message BAD_REQUEST ''Missing request_id''),
                     repo, cm)
               else
                 (case find (\<lambda>r. fr_id r = request_id)
                         (get_pending_friend_requests repo (the user)) of
                    None \<Rightarrow>
                      (Inr (friend_error_response now message NOT_FOUND
                              ''Friend request not found or already processed''), repo, cm)
                  | Some request \<Rightarrow>
                      let from_user = fr_from_user request in
                      (case accept_friend_request now repo request_id of
                         (success, repo') \<Rightarrow>
                           if \<not> success then (Inl (Unhandled ''AttributeError''), repo', cm)
                           else
                             let cm' = notify_user now eid cm from_user ''friend/event''
                                         (JObj [(''event_type'', JStr ''request_accepted''),
                                                (''user_id'', JStr (the user)),
                                                (''request_id'', JInt (int request_id))])
                             in
                             (friend_ok_response now message ''friend/accept_ack''
                                [(''friend_id'', JStr from_user),
                                 (''message'', JStr ''Friend request accepted'')],
                              repo', cm')))))"

definition handle_reject ::
  "int \<Rightarrow> string \<Rightarrow> friend_payload message \<Rightarrow> nat \<Rightarrow> store \<times> connection_manager \<Rightarrow>
   (error + json) \<times> store \<times> connection_manager" where
  "handle_reject now eid message c w =
     (case w of (repo, cm) \<Rightarrow>
        let user = ctx_user_id (contexts cm c) in
        if falsy_str user
        then (Inr (friend_error_response now message UNAUTHORIZED ''Not authenticated''), repo, cm)
        else
          (case fp_request_id (m_payload message) of
             None \<Rightarrow>
               (Inr (friend_error_response now message BAD_REQUEST ''Missing request_id''), repo, cm)
           | Some request_id \<Rightarrow>
               if request_id = 0
               then (Inr (friend_error_response now message BAD_REQUEST ''Missing request_id''),
                     repo, cm)
               else
                 (case find (\<lambda>r. fr_id r = request_id)
                         (get_pending_friend_requests repo (the user)) of
                    None \<Rightarrow>
                      (Inr (friend_error_response now message NOT_FOUND
                              ''Friend request not found or already processed''), repo, cm)
                  | Some request \<Rightarrow>
                      let from_user = fr_from_user request in
                      (case reject_friend_request now repo request_id of
                         (success, repo') \<Rightarrow>
                           if \<not> success then (Inl (Unhandled ''AttributeError''), repo', cm)
                           else
                             let cm' = notify_user now eid cm from_user ''friend/event''
                                         (JObj [(''event_type'', JStr ''request_rejected''),
                                                (''user_id'', JStr (the user)),
                                                (''request_id'', JInt (int request_id))])
                             in
                             (friend_ok_response now message ''friend/reject_ack''
                                [(''message'', JStr ''Friend request rejected'')],
                              repo', cm')))))"

definition handle_delete_friend ::
  "int \<Rightarrow> string \<Rightarrow> friend_payload message \<Rightarrow> nat \<Rightarrow> store \<times> connection_manager \<Rightarrow>
   (error + json) \<times> store \<times> connection_manager" where
  "handle_delete_friend now eid message c w =
     (case w of (repo, cm) \<Rightarrow>
        let user = ctx_user_id (contexts cm c) in
        if falsy_str user
        then (Inr (friend_error_response now message UNAUTHORIZED ''Not authenticated''), repo, cm)
        else
          let friend_id = fp_friend_id (m_payload message) in
          if falsy_str friend_id
          then (Inr (friend_error_response now message BAD_REQUEST ''Missing friend_id''), repo, cm)
          else if \<not> are_friends repo (the user) (the friend_id)
          then (Inr (friend_error_response now message NOT_FOUND ''Not friends''), repo, cm)
          else
            (case delete_friend repo (the user) (the friend_id) of
               (success, repo') \<Rightarrow>
                 if \<not> success then (Inl (Unhandled ''AttributeError''), repo', cm)
                 else
                   let cm' = notify_user now eid cm (the friend_id) ''friend/event''
                               (JObj [(''event_type'', JStr ''friend_deleted''),
                                      (''user_id'', JStr (the user))])
                   in
                   (friend_ok_response now message ''friend/delete_ack''
                      [(''message'', JStr ''Friend deleted'')],
                    repo', cm')))"

text \<open>
  The invariant of the table \<open>friend_requests\<close> that the friend handlers keep: no request
  from a user to the same user (\<open>handle_request\<close> refuses it), distinct positive ids none
  above the counter, and at most one row per ordered pair (\<open>UNIQUE(from_user, to_user)\<close>).
\<close>

definition requests_ok :: "store \<Rightarrow> bool" where
  "requests_ok s \<longleftrightarrow>
     list_all (\<lambda>r. fr_from_user r \<noteq> fr_to_user r \<and> 0 < fr_id r \<and> fr_id r \<le> request_seq s)
       (friend_requests s) \<and>
     distinct (map fr_id (friend_requests s)) \<and>
     distinct (map (\<lambda>r. (fr_from_user r, fr_to_user r)) (friend_requests s))"

text \<open>The row of a request id, and the status that row has.\<close>

definition request_row_of :: "store \<Rightarrow> nat \<Rightarrow> request_row option" where
  "request_row_of s request_id = find (\<lambda>r. fr_id r = request_id) (friend_requests s)"

text \<open>Two states of the demo: alice has asked bob (request 1), and bob is connected.\<close>

definition friend_store :: store where
  "friend_store =
     empty_store
       \<lparr>users := [''alice'' \<mapsto> \<lparr>ur_password_hash = ''a'', ur_created_at = 1\<rparr>,
                  ''bob'' \<mapsto> \<lparr>ur_password_hash = ''b'', ur_created_at = 1\<rparr>],
        friend_requests :=
          [\<lparr>fr_id = 1, fr_from_user = ''alice'', fr_to_user = ''bob'', fr_message = Some [],
            fr_status = ''pending'', fr_created_at = 2, fr_updated_at = 2\<rparr>],
        request_seq := 1\<rparr>"

definition accept_message :: "friend_payload message" where
  "accept_message =
     \<lparr>m_id = Some (JStr ''9''), m_timestamp = Some (JInt 3),
      m_command = Some (JStr ''friend/accept''),
      m_headers = Some [(''version'', JStr ''1.0'')],
      m_payload = \<lparr>fp_target_id = None, fp_message = None, fp_request_id = Some 1,
                   fp_friend_id = None\<rparr>\<rparr>"

text \<open>
  The status a response carries in its payload, and bob's accept of request 1 in the demo
  state (bob is bound to connection 1).
\<close>

definition response_status :: "json \<Rightarrow> json option" where
  "response_status r =
     (case json_member r ''payload'' of None \<Rightarrow> None | Some p \<Rightarrow> json_member p ''status'')"

definition first_accept :: "(error + json) \<times> store \<times> connection_manager" where
  "first_accept = handle_accept 3 ''e1'' accept_message 1 (friend_store, demo_manager)"

section \<open>Room service (server/services/room\_service.py)\<close>

text \<open>
  The payload of the room commands: \<open>room_id\<close>, \<open>encrypted\<close> (read with
  \<open>bool(payload.get("encrypted", False))\<close>), \<open>password\<close>, and the \<open>user_id\<close> of
  \<open>room/kick\<close>, which is whatever JSON value the frame has there: the handler compares it
  with the caller's id by \<open>==\<close> and hands it to the store, where it is bound as a parameter.
  \<open>sha256_hex\<close> of shared/utils/common.py is a parameter of the handlers that hash a
  password.
\<close>

record room_payload =
  rp_room_id :: "string option"
  rp_encrypted :: bool
  rp_password :: "string option"
  rp_user_id :: "json option"

definition room_response :: "int \<Rightarrow> 'p message \<Rightarrow> (string \<times> json) list \<Rightarrow> json" where
  "room_response now request payload =
     JObj [(''id'', json_of_opt (m_id request)), (''type'', JStr ''response''),
           (''timestamp'', JInt now), (''command'', json_of_opt (m_command request)),
           (''headers'', JObj (headers_with_version request)),
           (''payload'', JObj payload)]"

definition room_not_found :: "int \<Rightarrow> 'p message \<Rightarrow> string \<Rightarrow> json" where
  "room_not_found now message room_id =
     room_response now message
       [(''status'', JInt (status_int NOT_FOUND)), (''room_id'', JStr room_id),
        (''error_message'', JStr ''Room not found'')]"

definition not_authenticated :: error where
  "not_authenticated = ProtocolError UNAUTHORIZED None ''Not authenticated''"

definition missing_room_id :: error where
  "missing_room_id = ProtocolError BAD_REQUEST None ''Missing room_id''"

definition handle_create ::
  "(string \<Rightarrow> string) \<Rightarrow> int \<Rightarrow> room_payload message \<Rightarrow> nat \<Rightarrow> store \<times> connection_manager \<Rightarrow>
   (error + json) \<times> store \<times> connection_manager" where
  "handle_create sha256_hex now message c w =
     (case w of (repo, cm) \<Rightarrow>
        (case ctx_user_id (contexts cm c) of
           None \<Rightarrow> (Inl not_authenticated, repo, cm)
         | Some user \<Rightarrow>
             let payload = m_payload message;
                 encrypted = rp_encrypted payload;
                 password = rp_password payload
             in
             if falsy_str (rp_room_id payload) then (Inl missing_room_id, repo, cm)
             else if encrypted \<and> falsy_str password
             then (Inl (ProtocolError BAD_REQUEST None ''Encrypted room requires password''),
                   repo, cm)
             else
               let room_id = the (rp_room_id payload);
                   password_hash =
                     (if falsy_str password then None else Some (sha256_hex (the password)))
               in
               (case create_room now repo room_id user encrypted password_hash (JObj []) of
                  Inl value_error \<Rightarrow>
                    (Inr (room_response now message
                            [(''status'', JInt (status_int CONFLICT)), (''room_id'', JStr room_id),
                             (''error_message'', JStr value_error)]),
                     repo, cm)
                | Inr repo' \<Rightarrow>
                    (Inr (room_response now message
                            [(''status'', JInt (status_int SUCCESS)), (''room_id'', JStr room_id),
                             (''encrypted'', JBool encrypted), (''owner'', JStr user),
                             (''created_at'',
                                (case get_room repo' room_id of
                                   None \<Rightarrow> JNull
                                 | Some room \<Rightarrow> JInt (rr_created_at room))),
                             (''members'', JArr (map JStr (list_room_members repo' room_id)))]),
                     repo', cm))))"

text \<open>
  \<open>handle_join\<close>. \<open>add_member\<close> raises \<open>ValueError\<close> for a user who is a member already, and
  the handler does not catch it.
\<close>

definition handle_join ::
  "(string \<Rightarrow> string) \<Rightarrow> int \<Rightarrow> room_payload message \<Rightarrow> nat \<Rightarrow> store \<times> connection_manager \<Rightarrow>
   (error + json) \<times> store \<times> connection_manager" where
  "handle_join sha256_hex now message c w =
     (case w of (repo, cm) \<Rightarrow>
        (case ctx_user_id (contexts cm c) of
           None \<Rightarrow> (Inl not_authenticated, repo, cm)
         | Some user \<Rightarrow>
             let payload = m_payload message; password = rp_password payload in
             if falsy_str (rp_room_id payload) then (Inl missing_room_id, repo, cm)
             else
               let room_id = the (rp_room_id payload) in
               (case get_room repo room_id of
                  None \<Rightarrow> (Inr (room_not_found now message room_id), repo, cm)
                | Some room \<Rightarrow>
                    if rr_encrypted room \<and> falsy_str password
                    then (Inl (ProtocolError FORBIDDEN None ''Password required''), repo, cm)
                    else if rr_encrypted room \<and>
                            rr_password_hash room \<noteq> Some (sha256_hex (the password))
                    then (Inr (room_response now message
                                 [(''status'', JInt (status_int FORBIDDEN)),
                                  (''room_id'', JStr room_id),
                                  (''error_message'', JStr ''Invalid password'')]),
                          repo, cm)
                    else
                      (case add_member now repo room_id user of
                         Inl value_error \<Rightarrow> (Inl (Unhandled ''ValueError''), repo, cm)
                       | Inr repo' \<Rightarrow>
                           (Inr (room_response now message
                                   [(''status'', JInt (status_int SUCCESS)),
                                    (''room_id'', JStr room_id),
                                    (''encrypted'', JBool (rr_encrypted room)),
                                    (''owner'', JStr (rr_owner room)),
                                    (''created_at'', JInt (rr_created_at room)),
                                    (''members'',
                                       JArr (map JStr (list_room_members repo' room_id)))]),
                            repo', cm)))))"

definition handle_leave ::
  "int \<Rightarrow> room_payload message \<Rightarrow> nat \<Rightarrow> store \<times> connection_manager \<Rightarrow>
   (error + json) \<times> store \<times> connection_manager" where
  "handle_leave now message c w =
     (case w of (repo, cm) \<Rightarrow>
        (case ctx_user_id (contexts cm c) of
           None \<Rightarrow> (Inl not_authenticated, repo, cm)
         | Some user \<Rightarrow>
             if falsy_str (rp_room_id (m_payload message)) then (Inl missing_room_id, repo, cm)
             else
               let room_id = the (rp_room_id (m_payload message)) in
               if \<not> room_exists repo room_id
               then (Inr (room_not_found now message room_id), repo, cm)
               else
                 (Inr (room_response now message
                         [(''status'', JInt (status_int SUCCESS)), (''room_id'', JStr room_id)]),
                  remove_member repo room_id user, cm)))"

text \<open>
  \<open>handle_kick\<close>. The test \<open>target_user_id == ctx.user_id\<close> is Python's equality: a value that
  is not a string is never equal to the caller's id. \<open>remove_member\<close> then binds the value
  to \<open>DELETE ... WHERE room_id = ? AND user_id = ?\<close>: the column has TEXT affinity, so the
  integer 5 deletes the row of the user \<open>5\<close>.
\<close>

definition handle_kick ::
  "int \<Rightarrow> room_payload message \<Rightarrow> nat \<Rightarrow> store \<times> connection_manager \<Rightarrow>
   (error + json) \<times> store \<times> connection_manager" where
  "handle_kick now message c w =
     (case w of (repo, cm) \<Rightarrow>
        (case ctx_user_id (contexts cm c) of
           None \<Rightarrow> (Inl not_authenticated, repo, cm)
         | Some user \<Rightarrow>
             let payload = m_payload message in
             if falsy_str (rp_room_id payload) \<or> falsy (rp_user_id payload)
             then (Inl (ProtocolError BAD_REQUEST None ''Missing room_id or user_id''), repo, cm)
             else
               let room_id = the (rp_room_id payload);
                   target_user_id = the (rp_user_id payload)
               in
               (case get_room repo room_id of
                  None \<Rightarrow> (Inr (room_not_found now message room_id), repo, cm)
                | Some room \<Rightarrow>
                    if rr_owner room \<noteq> user
                    then (Inr (room_response now message
                                 [(''status'', JInt (status_int FORBIDDEN)),
                                  (''room_id'', JStr room_id),
                                  (''error_message'',
                                     JStr ''Only room owner can kick members'')]),
                          repo, cm)
                    else if target_user_id = JStr user
                    then (Inr (room_response now message
                                 [(''status'', JInt (status_int BAD_REQUEST)),
                                  (''room_id'', JStr room_id),
                                  (''error_message'', JStr ''Cannot kick yourself'')]),
                          repo, cm)
                    else
                      (case sql_bind target_user_id of
                         Inl err \<Rightarrow> (Inl err, repo, cm)
                       | Inr bound \<Rightarrow>
                           let repo' = (case bound of
                                          SqlNull \<Rightarrow> repo
                                        | SqlText t \<Rightarrow> remove_member repo room_id t)
                           in
                           (Inr (room_response now message
                                   [(''status'', JInt (status_int SUCCESS)),
                                    (''room_id'', JStr room_id),
                                    (''user_id'', target_user_id),
                                    (''members'',
                                       JArr (map JStr (list_room_members repo' room_id)))]),
                            repo', cm)))))"

definition handle_delete ::
  "int \<Rightarrow> room_payload message \<Rightarrow> nat \<Rightarrow> store \<times> connection_manager \<Rightarrow>
   (error + json) \<times> store \<times> connection_manager" where
  "handle_delete now message c w =
     (case w of (repo, cm) \<Rightarrow>
        (case ctx_user_id (contexts cm c) of
           None \<Rightarrow> (Inl not_authenticated, repo, cm)
         | Some user \<Rightarrow>
             if falsy_str (rp_room_id (m_payload message)) then (Inl missing_room_id, repo, cm)
             else
               let room_id = the (rp_room_id (m_payload message)) in
               (case get_room repo room_id of
                  None \<Rightarrow> (Inr (room_not_found now message room_id), repo, cm)
                | Some room \<Rightarrow>
                    if rr_owner room \<noteq> user
                    then (Inr (room_response now message
                                 [(''status'', JInt (status_int FORBIDDEN)),
                                  (''room_id'', JStr room_id),
                                  (''error_message'',
                                     JStr ''Only room owner can delete the room'')]),
                          repo, cm)
                    else
                      (Inr (room_response now message
                              [(''status'', JInt (status_int SUCCESS)),
                               (''room_id'', JStr room_id)]),
                       delete_room repo room_id, cm))))"

text \<open>The five room operations of claim C6, and the handler of each.\<close>

datatype room_op = RoomCreate | RoomJoin | RoomLeave | RoomKick | RoomDelete

fun room_handler ::
  "(string \<Rightarrow> string) \<Rightarrow> room_op \<Rightarrow> int \<Rightarrow> room_payload message \<Rightarrow> nat \<Rightarrow>
   store \<times> connection_manager \<Rightarrow> (error + json) \<times> store \<times> connection_manager" where
  "room_handler sha256_hex RoomCreate = handle_create sha256_hex"
| "room_handler sha256_hex RoomJoin = handle_join sha256_hex"
| "room_handler sha256_hex RoomLeave = handle_leave"
| "room_handler sha256_hex RoomKick = handle_kick"
| "room_handler sha256_hex RoomDelete = handle_delete"

text \<open>The owner of every room is a member of it.\<close>

definition owner_is_member :: "store \<Rightarrow> bool" where
  "owner_is_member s \<longleftrightarrow>
     (\<forall>room_id room. rooms s room_id = Some room \<longrightarrow>
        rr_owner room \<in> set (list_room_members s room_id))"

text \<open>
  \<open>owner_leaves\<close>: the operation is a \<open>room/leave\<close> of an existing room by its owner.
  \<open>owner_kicks_self\<close>: the operation is a \<open>room/kick\<close> of an existing room by its owner, with
  a \<open>user_id\<close> that the store binds to the owner's own id.
  \<open>room_states\<close> are the stores reached from the empty store by room operations, called on
  any connection with any registry; \<open>room_states_without_owner_removal\<close> are those reached
  with no operation of these two kinds.
\<close>

definition owner_leaves ::
  "room_op \<Rightarrow> room_payload message \<Rightarrow> nat \<Rightarrow> store \<times> connection_manager \<Rightarrow> bool" where
  "owner_leaves op message c w \<longleftrightarrow>
     op = RoomLeave \<and>
     (case rp_room_id (m_payload message) of
        None \<Rightarrow> False
      | Some room_id \<Rightarrow>
          (case rooms (fst w) room_id of
             None \<Rightarrow> False
           | Some room \<Rightarrow> ctx_user_id (contexts (snd w) c) = Some (rr_owner room)))"

definition owner_kicks_self ::
  "room_op \<Rightarrow> room_payload message \<Rightarrow> nat \<Rightarrow> store \<times> connection_manager \<Rightarrow> bool" where
  "owner_kicks_self op message c w \<longleftrightarrow>
     op = RoomKick \<and>
     (case rp_room_id (m_payload message) of
        None \<Rightarrow> False
      | Some room_id \<Rightarrow>
          (case rooms (fst w) room_id of
             None \<Rightarrow> False
           | Some room \<Rightarrow>
               ctx_user_id (contexts (snd w) c) = Some (rr_owner room) \<and>
               (case rp_user_id (m_payload message) of
                  None \<Rightarrow> False
                | Some target \<Rightarrow> sql_bind target = Inr (SqlText (rr_owner room)))))"

inductive room_states :: "(string \<Rightarrow> string) \<Rightarrow> store \<Rightarrow> bool" for sha256_hex where
  rs_init: "room_states sha256_hex empty_store"
| rs_step: "room_states sha256_hex repo \<Longrightarrow>
            room_handler sha256_hex op now message c (repo, cm) = (res, repo', cm') \<Longrightarrow>
            room_states sha256_hex repo'"

inductive room_states_without_owner_removal :: "(string \<Rightarrow> string) \<Rightarrow> store \<Rightarrow> bool"
  for sha256_hex where
  ro_init: "room_states_without_owner_removal sha256_hex empty_store"
| ro_step: "room_states_without_owner_removal sha256_hex repo \<Longrightarrow>
            room_handler sha256_hex op now message c (repo, cm) = (res, repo', cm') \<Longrightarrow>
            \<not> owner_leaves op message c (repo, cm) \<Longrightarrow>
            \<not> owner_kicks_self op message c (repo, cm) \<Longrightarrow>
            room_states_without_owner_removal sha256_hex repo'"

text \<open>Alice creates the room \<open>r2\<close> on connection 0 of the demo registry, then leaves it.\<close>

definition room_message :: "string \<Rightarrow> room_payload message" where
  "room_message command =
     \<lparr>m_id = Some (JStr ''5''), m_timestamp = Some (JInt 5), m_command = Some (JStr command),
      m_headers = Some [(''version'', JStr ''1.0'')],
      m_payload = \<lparr>rp_room_id = Some ''r2'', rp_encrypted = False, rp_password = None,
                   rp_user_id = None\<rparr>\<rparr>"

definition after_create :: store where
  "after_create =
     fst (snd (handle_create (\<lambda>p. p) 5 (room_message ''room/create'') 0
                 (empty_store, demo_manager)))"

definition after_leave :: store where
  "after_leave =
     fst (snd (handle_leave 6 (room_message ''room/leave'') 0 (after_create, demo_manager)))"

text \<open>Bob, on connection 1, joins the room alice created.\<close>

definition after_join :: store where
  "after_join =
     fst (snd (handle_join (\<lambda>p. p) 6 (room_message ''room/join'') 1 (after_create, demo_manager)))"

text \<open>
  The user \<open>5\<close>, bound to connection 0, owns the room \<open>r5\<close> and is its only member; the
  kick names the \<open>user_id\<close> 5, the number.
\<close>

definition numeric_manager :: connection_manager where
  "numeric_manager =
     empty_manager
       \<lparr>contexts := (contexts empty_manager)
           (0 := \<lparr>ctx_peername = ''a'', ctx_user_id = Some ''5'',
                   ctx_session_token = Some ''t0'', ctx_last_seen = 1\<rparr>),
        by_writer := [0 \<mapsto> 0],
        by_user := [''5'' \<mapsto> 0]\<rparr>"

definition numeric_store :: store where
  "numeric_store =
     empty_store
       \<lparr>rooms := [''r5'' \<mapsto> \<lparr>rr_owner = ''5'', rr_encrypted = False, rr_created_at = 1,
                               rr_password_hash = None, rr_metadata = JObj []\<rparr>],
        room_members := [\<lparr>mb_room_id = ''r5'', mb_user_id = ''5'', mb_joined_at = 1\<rparr>]\<rparr>"

definition numeric_kick :: "room_payload message" where
  "numeric_kick =
     \<lparr>m_id = Some (JStr ''6''), m_timestamp = Some (JInt 6),
      m_command = Some (JStr ''room/kick''), m_headers = Some [(''version'', JStr ''1.0'')],
      m_payload = \<lparr>rp_room_id = Some ''r5'', rp_encrypted = False, rp_password = None,
                   rp_user_id = Some (JInt 5)\<rparr>\<rparr>"

section \<open>Voice service (server/services/voice\_service.py)\<close>

text \<open>
  A \<open>VoiceCall\<close>. The participants are a Python set; the model keeps them as a list without
  repetition, in the order they were added (the order in which the source iterates over
  the set is not specified). The id of a call is the \<open>id\<close> member of the \<open>voice/call\<close>
  message, any JSON value that can be a dictionary key. Keys are compared as JSON values
  (Python also takes \<open>True\<close> and \<open>1\<close> for the same key; the ids of the protocol are strings).
\<close>

record voice_call =
  vc_call_id :: json
  vc_initiator_id :: string
  vc_call_type :: string
  vc_target_type :: string
  vc_target_id :: string
  vc_status :: string
  vc_participants :: "string list"
  vc_created_at :: int
  vc_connected_at :: "int option"
  vc_ended_at :: "int option"

record voice_service =
  active_calls :: "json \<rightharpoonup> voice_call"
  user_to_call :: "string \<rightharpoonup> json"

definition empty_voice :: voice_service where
  "empty_voice = \<lparr>active_calls = Map.empty, user_to_call = Map.empty\<rparr>"

record voice_payload =
  vp_call_type :: "string option"
  vp_target :: "target option"
  vp_call_id :: "json option"

definition new_call :: "int \<Rightarrow> json \<Rightarrow> string \<Rightarrow> string \<Rightarrow> string \<Rightarrow> string \<Rightarrow> voice_call" where
  "new_call now call_id initiator call_type target_type target_id =
     \<lparr>vc_call_id = call_id, vc_initiator_id = initiator, vc_call_type = call_type,
      vc_target_type = target_type, vc_target_id = target_id, vc_status = ''ringing'',
      vc_participants = [initiator], vc_created_at = now, vc_connected_at = None,
      vc_ended_at = None\<rparr>"

definition add_participant :: "int \<Rightarrow> string \<Rightarrow> voice_call \<Rightarrow> voice_call" where
  "add_participant now user call =
     (let call1 = call\<lparr>vc_participants :=
                    (if user \<in> set (vc_participants call) then vc_participants call
                     else vc_participants call @ [user])\<rparr>
      in if vc_status call1 = ''ringing''
         then call1\<lparr>vc_status := ''connected'', vc_connected_at := Some now\<rparr>
         else call1)"

definition remove_participant :: "string \<Rightarrow> voice_call \<Rightarrow> voice_call" where
  "remove_participant user call =
     call\<lparr>vc_participants := filter (\<lambda>p. p \<noteq> user) (vc_participants call)\<rparr>"

definition end_call :: "int \<Rightarrow> voice_call \<Rightarrow> voice_call" where
  "end_call now call = call\<lparr>vc_status := ''ended'', vc_ended_at := Some now\<rparr>"

text \<open>
  \<open>_notify_user\<close> writes an event to the connection bound to the user and drops every
  failure, as the friend service does; a handler that notifies several users draws a fresh
  event id for each, \<open>eids k\<close> being the \<open>k\<close>-th.
\<close>

fun notify_all ::
  "int \<Rightarrow> (nat \<Rightarrow> string) \<Rightarrow> nat \<Rightarrow> connection_manager \<Rightarrow> string list \<Rightarrow> string \<Rightarrow> json \<Rightarrow>
   connection_manager" where
  "notify_all now eids k cm [] command payload = cm"
| "notify_all now eids k cm (u # us) command payload =
     notify_all now eids (Suc k) (notify_user now (eids k) cm u command payload) us command payload"

definition voice_error_response :: "int \<Rightarrow> 'p message \<Rightarrow> StatusCode \<Rightarrow> string \<Rightarrow> json" where
  "voice_error_response now message status error_msg =
     JObj [(''id'', json_of_opt (m_id message)), (''type'', JStr ''response''),
           (''timestamp'', JInt now),
           (''command'', (case m_command message of None \<Rightarrow> JStr ''unknown'' | Some k \<Rightarrow> k)),
           (''headers'', JObj [(''version'', JStr DEFAULT_VERSION)]),
           (''payload'', JObj [(''status'', JInt (status_int status)),
                               (''error_message'', JStr error_msg)])]"

definition voice_ack :: "int \<Rightarrow> 'p message \<Rightarrow> string \<Rightarrow> (string \<times> json) list \<Rightarrow> json" where
  "voice_ack now message command payload =
     JObj [(''id'', json_of_opt (m_id message)), (''type'', JStr ''response''),
           (''timestamp'', JInt now), (''command'', JStr command),
           (''headers'', JObj [(''version'', JStr DEFAULT_VERSION)]),
           (''payload'', JObj ((''status'', JInt 200) # payload))]"

definition target_json :: "target \<Rightarrow> json" where
  "target_json t =
     JObj ((case tg_type t of None \<Rightarrow> [] | Some x \<Rightarrow> [(''type'', JStr x)]) @
           (case tg_id t of None \<Rightarrow> [] | Some x \<Rightarrow> [(''id'', JStr x)]))"

text \<open>
  The state of the voice handlers: the calls, the registry they write events to, and the
  store they read the members of a room from. \<open>uuid\<close> is the fresh \<open>uuid4().hex\<close> that names
  the call when the message has no id.
\<close>

type_synonym voice_world = "voice_service \<times> connection_manager \<times> store"

definition handle_call ::
  "int \<Rightarrow> string \<Rightarrow> (nat \<Rightarrow> string) \<Rightarrow> voice_payload message \<Rightarrow> nat \<Rightarrow> voice_world \<Rightarrow>
   (error + json) \<times> voice_world" where
  "handle_call now uuid eids message c w =
     (case w of (vs, cm, repo) \<Rightarrow>
        let user = ctx_user_id (contexts cm c) in
        if falsy_str user
        then (Inr (voice_error_response now message UNAUTHORIZED ''Not authenticated''), w)
        else
          let payload = m_payload message;
              call_type = (case vp_call_type payload of None \<Rightarrow> ''direct'' | Some t \<Rightarrow> t);
              tgt = (case vp_target payload of
                       None \<Rightarrow> \<lparr>tg_type = None, tg_id = None\<rparr>
                     | Some t \<Rightarrow> t)
          in
          if falsy_str (tg_type tgt) \<or> falsy_str (tg_id tgt)
          then (Inr (voice_error_response now message BAD_REQUEST ''Invalid target''), w)
          else if user_to_call vs (the user) \<noteq> None
          then (Inr (voice_error_response now message CONFLICT ''Already in a call''), w)
          else
            let call_id = (case m_id message of None \<Rightarrow> JStr uuid | Some v \<Rightarrow> v) in
            if \<not> hashable call_id then (Inl (Unhandled ''TypeError''), w)
            else
              let call = new_call now call_id (the user) call_type (the (tg_type tgt))
                           (the (tg_id tgt));
                  vs' = vs\<lparr>active_calls := (active_calls vs)(call_id \<mapsto> call),
                           user_to_call := (user_to_call vs)(the user \<mapsto> call_id)\<rparr>;
                  cm' =
                    (if tg_type tgt = Some ''user''
                     then notify_user now (eids 0) cm (the (tg_id tgt)) ''voice/event''
                            (JObj [(''event_type'', JStr ''incoming''), (''call_id'', call_id),
                                   (''from_user'', JStr (the user)),
                                   (''call_type'', JStr call_type),
                                   (''target'', target_json tgt)])
                     else if tg_type tgt = Some ''room''
                     then notify_all now eids 0 cm
                            (filter (\<lambda>m. m \<noteq> the user) (list_room_members repo (the (tg_id tgt))))
                            ''voice/event''
                            (JObj [(''event_type'', JStr ''incoming''), (''call_id'', call_id),
                                   (''from_user'', JStr (the user)),
                                   (''call_type'', JStr ''group''),
                                   (''target'', target_json tgt)])
                     else cm)
              in
              (Inr (voice_ack now message ''voice/call_ack''
                      [(''call_id'', call_id), (''message'', JStr ''Call initiated'')]),
               vs', cm', repo))"

text \<open>\<open>self.active_calls.get(call_id)\<close> for the \<open>call_id\<close> of the payload.\<close>

definition lookup_call :: "voice_service \<Rightarrow> json option \<Rightarrow> error + voice_call option" where
  "lookup_call vs call_id =
     (let key = json_of_opt call_id in
      if \<not> hashable key then Inl (Unhandled ''TypeError'') else Inr (active_calls vs key))"

definition handle_answer ::
  "int \<Rightarrow> (nat \<Rightarrow> string) \<Rightarrow> voice_payload message \<Rightarrow> nat \<Rightarrow> voice_world \<Rightarrow>
   (error + json) \<times> voice_world" where
  "handle_answer now eids message c w =
     (case w of (vs, cm, repo) \<Rightarrow>
        let user = ctx_user_id (contexts cm c) in
        if falsy_str user
        then (Inr (voice_error_response now message UNAUTHORIZED ''Not authenticated''), w)
        else
          let call_id = json_of_opt (vp_call_id (m_payload message)) in
          (case lookup_call vs (vp_call_id (m_payload message)) of
             Inl err \<Rightarrow> (Inl err, w)
           | Inr None \<Rightarrow> (Inr (voice_error_response now message NOT_FOUND ''Call not found''), w)
           | Inr (Some call) \<Rightarrow>
               if vc_call_type call = ''direct'' \<and> vc_status call \<noteq> ''ringing''
               then (Inr (voice_error_response now message CONFLICT
                            ''Call already answered or ended''), w)
               else if vc_call_type call = ''group'' \<and> vc_status call = ''ended''
               then (Inr (voice_error_response now message CONFLICT ''Call has ended''), w)
               else
                 let was_ringing = (vc_status call = ''ringing'');
                     call' = add_participant now (the user) call;
                     vs' = vs\<lparr>active_calls := (active_calls vs)(call_id \<mapsto> call'),
                              user_to_call := (user_to_call vs)(the user \<mapsto> call_id)\<rparr>;
                     event_type = (if was_ringing then ''connected'' else ''member_joined'');
                     cm' = notify_all now eids 0 cm (vc_participants call') ''voice/event''
                             (JObj [(''event_type'', JStr event_type), (''call_id'', call_id),
                                    (''user_id'', JStr (the user)),
                                    (''members'', JArr (map JStr (vc_participants call')))])
                 in
                 (Inr (voice_ack now message ''voice/answer_ack''
                         [(''call_id'', call_id), (''message'', JStr ''Call connected'')]),
                  vs', cm', repo)))"

text \<open>
  \<open>_cleanup_call\<close>: the call leaves \<open>active_calls\<close>, and every participant it still has
  leaves \<open>user_to_call\<close>, whatever call the index maps the participant to.
\<close>

definition cleanup_call :: "voice_service \<Rightarrow> json \<Rightarrow> voice_service" where
  "cleanup_call vs call_id =
     (case active_calls vs call_id of
        None \<Rightarrow> vs
      | Some call \<Rightarrow>
          vs\<lparr>active_calls := (active_calls vs)(call_id := None),
             user_to_call := (\<lambda>u. if u \<in> set (vc_participants call) then None
                                    else user_to_call vs u)\<rparr>)"

definition handle_voice_reject ::
  "int \<Rightarrow> (nat \<Rightarrow> string) \<Rightarrow> voice_payload message \<Rightarrow> nat \<Rightarrow> voice_world \<Rightarrow>
   (error + json) \<times> voice_world" where
  "handle_voice_reject now eids message c w =
     (case w of (vs, cm, repo) \<Rightarrow>
        let user = ctx_user_id (contexts cm c) in
        if falsy_str user
        then (Inr (voice_error_response now message UNAUTHORIZED ''Not authenticated''), w)
        else
          let call_id = json_of_opt (vp_call_id (m_payload message)) in
          (case lookup_call vs (vp_call_id (m_payload message)) of
             Inl err \<Rightarrow> (Inl err, w)
           | Inr None \<Rightarrow> (Inr (voice_error_response now message NOT_FOUND ''Call not found''), w)
           | Inr (Some call) \<Rightarrow>
               let cm' = notify_user now (eids 0) cm (vc_initiator_id call) ''voice/event''
                           (JObj [(''event_type'', JStr ''rejected''), (''call_id'', call_id),
                                  (''by_user'', JStr (the user))]);
                   vs' = (if vc_call_type call = ''direct''
                          then cleanup_call
                                 (vs\<lparr>active_calls :=
                                       (active_calls vs)(call_id \<mapsto> end_call now call)\<rparr>)
                                 call_id
                          else vs)
               in
               (Inr (voice_ack now message ''voice/reject_ack'' [(''call_id'', call_id)]),
                vs', cm', repo)))"

definition handle_end ::
  "int \<Rightarrow> (nat \<Rightarrow> string) \<Rightarrow> voice_payload message \<Rightarrow> nat \<Rightarrow> voice_world \<Rightarrow>
   (error + json) \<times> voice_world" where
  "handle_end now eids message c w =
     (case w of (vs, cm, repo) \<Rightarrow>
        let user = ctx_user_id (contexts cm c) in
        if falsy_str user
        then (Inr (voice_error_response now message UNAUTHORIZED ''Not authenticated''), w)
        else
          let call_id = json_of_opt (vp_call_id (m_payload message)) in
          (case lookup_call vs (vp_call_id (m_payload message)) of
             Inl err \<Rightarrow> (Inl err, w)
           | Inr None \<Rightarrow> (Inr (voice_error_response now message NOT_FOUND ''Call not found''), w)
           | Inr (Some call) \<Rightarrow>
               if the user \<notin> set (vc_participants call)
               then (Inr (voice_error_response now message FORBIDDEN ''Not in this call''), w)
               else
                 let all_participants = vc_participants call;
                     call' = remove_participant (the user) call;
                     vs1 = vs\<lparr>active_calls := (active_calls vs)(call_id \<mapsto> call'),
                              user_to_call := (user_to_call vs)(the user := None)\<rparr>;
                     ack = voice_ack now message ''voice/end_ack'' [(''call_id'', call_id)]
                 in
                 if vc_call_type call' = ''group'' \<and> vc_participants call' \<noteq> []
                 then
                   (Inr ack, vs1,
                    notify_all now eids 0 cm (vc_participants call') ''voice/event''
                      (JObj [(''event_type'', JStr ''member_left''), (''call_id'', call_id),
                             (''user_id'', JStr (the user)),
                             (''members'', JArr (map JStr (vc_participants call')))]),
                    repo)
                 else
                   let duration = (case vc_connected_at call' of
                                     None \<Rightarrow> 0
                                   | Some t \<Rightarrow> now - t);
                       cm' = notify_all now eids 0 cm all_participants ''voice/event''
                               (JObj [(''event_type'', JStr ''ended''), (''call_id'', call_id),
                                      (''call_type'', JStr (vc_call_type call')),
                                      (''target_type'', JStr (vc_target_type call')),
                                      (''target_id'', JStr (vc_target_id call')),
                                      (''participants'', JArr (map JStr all_participants)),
                                      (''duration'', JInt duration),
                                      (''initiator'', JStr (vc_initiator_id call'))]);
                       vs2 = cleanup_call
                               (vs1\<lparr>active_calls :=
                                      (active_calls vs1)(call_id \<mapsto> end_call now call')\<rparr>)
                               call_id
                   in (Inr ack, vs2, cm', repo)))"

text \<open>
  \<open>user_disconnected\<close>, the disconnect callback of server/main.py: the user's call, if the
  index has one, is ended through \<open>handle_end\<close> with a message made up for it.
\<close>

definition user_disconnected ::
  "int \<Rightarrow> string \<Rightarrow> (nat \<Rightarrow> string) \<Rightarrow> string \<Rightarrow> nat \<Rightarrow> voice_world \<Rightarrow> voice_world" where
  "user_disconnected now uuid eids user c w =
     (case w of (vs, cm, repo) \<Rightarrow>
        (case user_to_call vs user of
           None \<Rightarrow> w
         | Some call_id \<Rightarrow>
             if \<not> truthy call_id then w
             else
               (case active_calls vs call_id of
                  None \<Rightarrow> w
                | Some call \<Rightarrow>
                    snd (handle_end now eids
                           \<lparr>m_id = Some (JStr uuid), m_timestamp = None,
                            m_command = Some (JStr ''voice/end''), m_headers = None,
                            m_payload = \<lparr>vp_call_type = None, vp_target = None,
                                         vp_call_id = Some call_id\<rparr>\<rparr>
                           c w))))"

text \<open>
  The invariant of claim C4: the index maps a user to a call exactly when the user is a
  participant of that call and the call has not ended.
\<close>

definition voice_index_ok :: "voice_service \<Rightarrow> bool" where
  "voice_index_ok vs \<longleftrightarrow>
     (\<forall>u c. (user_to_call vs u = Some c) =
            (\<exists>call. active_calls vs c = Some call \<and> u \<in> set (vc_participants call) \<and>
                    vc_status call \<noteq> ''ended''))"

text \<open>
  A run of three requests in the demo registry: alice (connection 0) calls bob with the
  message id \<open>c1\<close>, bob (connection 1) calls alice with the message id \<open>c2\<close>, and bob
  answers \<open>c1\<close>.
\<close>

definition call_message :: "string \<Rightarrow> string \<Rightarrow> voice_payload message" where
  "call_message request_id callee =
     \<lparr>m_id = Some (JStr request_id), m_timestamp = Some (JInt 1),
      m_command = Some (JStr ''voice/call''), m_headers = Some [(''version'', JStr ''1.0'')],
      m_payload = \<lparr>vp_call_type = Some ''direct'',
                   vp_target = Some \<lparr>tg_type = Some ''user'', tg_id = Some callee\<rparr>,
                   vp_call_id = None\<rparr>\<rparr>"

definition answer_message :: "string \<Rightarrow> string \<Rightarrow> voice_payload message" where
  "answer_message request_id call_id =
     \<lparr>m_id = Some (JStr request_id), m_timestamp = Some (JInt 1),
      m_command = Some (JStr ''voice/answer''), m_headers = Some [(''version'', JStr ''1.0'')],
      m_payload = \<lparr>vp_call_type = None, vp_target = None,
                   vp_call_id = Some (JStr call_id)\<rparr>\<rparr>"

definition voice_run :: voice_service where
  "voice_run =
     (let w0 = (empty_voice, demo_manager, demo_store);
          w1 = snd (handle_call 1 ''u1'' (\<lambda>k. ''e'') (call_message ''c1'' ''bob'') 0 w0);
          w2 = snd (handle_call 2 ''u2'' (\<lambda>k. ''e'') (call_message ''c2'' ''alice'') 1 w1);
          w3 = snd (handle_answer 3 (\<lambda>k. ''e'') (answer_message ''a1'' ''c1'') 1 w2)
      in fst w3)"

section \<open>Properties of the offline queue\<close>




lemma pending_enqueue:
  "pending (enqueue_offline_message now s u e) U = pending s U @ (if u = U then [e] else [])"
  by (simp add: pending_def enqueue_offline_message_def)












section \<open>Properties of the message service\<close>

lemma live_iff:
  "live cm u ev \<longleftrightarrow>
   (\<exists>c. by_user cm u = Some c \<and> encode_msg ev = Inr (frame_of ev) \<and> \<not> w_failing (writers cm c))"
  by (auto simp: live_def send_to_user_def encode_msg_def frame_of_def Let_def split: option.splits)

lemma live_same_wiring: "same_wiring cm cm' \<Longrightarrow> live cm' u ev = live cm u ev"
  by (simp add: live_iff same_wiring_def)

lemma send_live:
  assumes "live cm u ev"
  shows "\<exists>c. by_user cm u = Some c \<and>
             send_to_user cm u ev =
               (True, cm\<lparr>writers := (writers cm)
                  (c := (writers cm c)\<lparr>w_written := w_written (writers cm c) @ [frame_of ev]\<rparr>)\<rparr>)"
  using assms
  by (auto simp: live_iff send_to_user_def)

lemma send_not_live: "\<not> live cm u ev \<Longrightarrow> send_to_user cm u ev = (False, cm)"
  by (auto simp: live_def send_to_user_def split: option.splits sum.splits if_splits)

lemma deliver_live:
  assumes "u \<noteq> []" "live cm u ev"
  shows "\<exists>c. by_user cm u = Some c \<and>
           deliver_to_user now (repo, cm) (Some u) ev =
             (True, repo, cm\<lparr>writers := (writers cm)
                  (c := (writers cm c)\<lparr>w_written := w_written (writers cm c) @ [frame_of ev]\<rparr>)\<rparr>)"
  using send_live[OF assms(2)] assms(1)
  by (auto simp: deliver_to_user_def falsy_str_def)

lemma deliver_not_live:
  assumes "u \<noteq> []" "\<not> live cm u ev"
  shows "deliver_to_user now (repo, cm) (Some u) ev =
           (False, enqueue_offline_message now repo u ev, cm)"
  using send_not_live[OF assms(2)] assms(1)
  by (simp add: deliver_to_user_def falsy_str_def)

lemma deliver_empty: "deliver_to_user now (repo, cm) (Some []) ev = (False, repo, cm)"
  by (simp add: deliver_to_user_def falsy_str_def)

text \<open>What the loop over the members leaves, for any list of members.\<close>

lemma deliver_to_members_effect:
  "deliver_to_members now sender ev ms (repo, cm) = (repo', cm') \<Longrightarrow>
   same_wiring cm cm' \<and>
   (\<forall>conn. w_written (writers cm' conn) =
      w_written (writers cm conn) @
      replicate (length (filter (\<lambda>m. served sender m \<and> live cm m ev \<and> by_user cm m = Some conn) ms))
        (frame_of ev)) \<and>
   (\<forall>u. pending repo' u =
      pending repo u @
      replicate (length (filter (\<lambda>m. served sender m \<and> \<not> live cm m ev \<and> m = u) ms)) ev)"
proof (induction ms arbitrary: repo cm)
  case Nil
  then show ?case by (simp add: same_wiring_def)
next
  case (Cons m ms)
  show ?case
  proof (cases "served sender m")
    case False
    then have "deliver_to_members now sender ev (m # ms) (repo, cm) =
               deliver_to_members now sender ev ms (repo, cm)"
      by (auto simp: served_def deliver_empty)
    with Cons.prems Cons.IH[of repo cm] False show ?thesis by simp
  next
    case True
    then have ne: "m \<noteq> []" and ns: "m \<noteq> sender" by (simp_all add: served_def)
    show ?thesis
    proof (cases "live cm m ev")
      case True
      from deliver_live[OF ne True, of now repo] obtain c where
        c: "by_user cm m = Some c" and
        d: "deliver_to_user now (repo, cm) (Some m) ev =
             (True, repo, cm\<lparr>writers := (writers cm)
                  (c := (writers cm c)\<lparr>w_written := w_written (writers cm c) @ [frame_of ev]\<rparr>)\<rparr>)"
        by blast
      let ?cm1 = "cm\<lparr>writers := (writers cm)
                  (c := (writers cm c)\<lparr>w_written := w_written (writers cm c) @ [frame_of ev]\<rparr>)\<rparr>"
      have sw: "same_wiring cm ?cm1" by (simp add: same_wiring_def)
      have step: "deliver_to_members now sender ev ms (repo, ?cm1) = (repo', cm')"
        using Cons.prems ns d by simp
      note ih = Cons.IH[OF step]
      have l: "\<And>u. live ?cm1 u ev = live cm u ev" using sw by (rule live_same_wiring)
      have bu: "by_user ?cm1 = by_user cm" by simp
      have 1: "same_wiring cm cm'" using ih sw by (auto simp: same_wiring_def)
      have 2: "w_written (writers cm' conn) =
          w_written (writers cm conn) @
          replicate (length (filter (\<lambda>m. served sender m \<and> live cm m ev \<and> by_user cm m = Some conn) (m # ms)))
            (frame_of ev)" for conn
        using ih \<open>served sender m\<close> True c
        by (auto simp: l replicate_append_same)
      have 3: "pending repo' u =
          pending repo u @
          replicate (length (filter (\<lambda>m. served sender m \<and> \<not> live cm m ev \<and> m = u) (m # ms))) ev" for u
        using ih True by (simp add: l)
      show ?thesis using 1 2 3 by blast
    next
      case False
      have d: "deliver_to_user now (repo, cm) (Some m) ev =
           (False, enqueue_offline_message now repo m ev, cm)"
        using deliver_not_live[OF ne False] .
      have step: "deliver_to_members now sender ev ms (enqueue_offline_message now repo m ev, cm) = (repo', cm')"
        using Cons.prems ns d by simp
      note ih = Cons.IH[OF step]
      have 3: "pending repo' u =
          pending repo u @
          replicate (length (filter (\<lambda>m. served sender m \<and> \<not> live cm m ev \<and> m = u) (m # ms))) ev" for u
        using ih False \<open>served sender m\<close>
        by (auto simp: pending_enqueue replicate_append_same)
      show ?thesis using ih False 3 by auto
    qed
  qed
qed

lemma distinct_of_map: "distinct (map f ys) \<Longrightarrow> distinct ys"
  by (induction ys) auto

lemma distinct_room_members:
  assumes "members_ok repo"
  shows "distinct (list_room_members repo room)"
proof -
  let ?rows = "filter (\<lambda>m. mb_room_id m = room) (room_members repo)"
  have d: "distinct (map (\<lambda>m. (mb_room_id m, mb_user_id m)) ?rows)"
    using assms by (simp add: members_ok_def distinct_map_filter)
  have e: "map (\<lambda>m. (mb_room_id m, mb_user_id m)) ?rows = map (Pair room) (map mb_user_id ?rows)"
    by (induction "room_members repo") auto
  have "distinct (map (Pair room) (map mb_user_id ?rows))" using d unfolding e .
  then have "distinct (map mb_user_id ?rows)"
    by (rule distinct_of_map)
  then show ?thesis by (simp add: list_room_members_def)
qed

lemma length_filter_eq_distinct:
  "distinct xs \<Longrightarrow> x \<in> set xs \<Longrightarrow> length (filter (\<lambda>m. m = x) xs) = 1"
  by (induction xs) (auto simp: filter_empty_conv)

lemma pending_messages [simp]: "pending (s\<lparr>messages := ms\<rparr>) u = pending s u"
  by (simp add: pending_def)

lemma insert_message_Inr:
  assumes "insert_message now mid repo convo sender content = Inr (stored, repo1)"
  shows "stored = \<lparr>mr_message_id = mid, mr_conversation_id = convo, mr_sender_id = sender,
                   mr_content = content, mr_timestamp = now\<rparr> \<and>
         (\<exists>rows. repo1 = repo\<lparr>messages := rows\<rparr>)"
  using assms by (auto simp: insert_message_def split: if_splits)

lemma handle_send_accepted:
  assumes "handle_send now mid message c (repo, cm) = (Inr ack, repo', cm')"
  shows "\<exists>sender request_id rows.
           ctx_user_id (contexts cm c) = Some sender \<and>
           \<not> falsy_str (sp_conversation_id (m_payload message)) \<and>
           m_id message = Some request_id \<and>
           ack = message_ack now request_id (headers_with_version message) mid \<and>
           (let tgt = target_of (m_payload message);
                ev = send_event now mid message sender;
                repo1 = repo\<lparr>messages := rows\<rparr>
            in
            if tg_type tgt = Some ''user''
            then (repo', cm') = snd (deliver_to_user now (repo1, cm) (tg_id tgt) ev)
            else if tg_type tgt = Some ''room''
            then \<not> falsy_str (tg_id tgt) \<and>
                 (repo', cm') = deliver_to_members now sender ev
                    (list_room_members repo (the (tg_id tgt))) (repo1, cm)
            else (repo', cm') = (repo1, cm))"
proof -
  from assms obtain sender where s: "ctx_user_id (contexts cm c) = Some sender"
    by (auto simp: handle_send_def split: option.splits)
  from assms s have cv: "\<not> falsy_str (sp_conversation_id (m_payload message))"
    by (auto simp: handle_send_def Let_def split: if_splits)
  from assms s cv obtain stored repo1 where
    ins: "insert_message now mid repo (the (sp_conversation_id (m_payload message))) sender
            (sp_content (m_payload message)) = Inr (stored, repo1)"
    by (auto simp: handle_send_def Let_def split: sum.splits)
  from insert_message_Inr[OF ins] obtain rows where
    st: "stored = \<lparr>mr_message_id = mid,
                    mr_conversation_id = the (sp_conversation_id (m_payload message)),
                    mr_sender_id = sender, mr_content = sp_content (m_payload message),
                    mr_timestamp = now\<rparr>"
    and r1: "repo1 = repo\<lparr>messages := rows\<rparr>" by blast
  from assms s cv ins obtain request_id where rid: "m_id message = Some request_id"
    by (auto simp: handle_send_def Let_def split: option.splits)
  have lm: "list_room_members repo1 room = list_room_members repo room" for room
    by (simp add: r1 list_room_members_def)
  have "ack = message_ack now request_id (headers_with_version message) mid \<and>
        (if tg_type (target_of (m_payload message)) = Some ''user''
            then (repo', cm') = snd (deliver_to_user now (repo1, cm) (tg_id (target_of (m_payload message)))
                   (send_event now mid message sender))
            else if tg_type (target_of (m_payload message)) = Some ''room''
            then \<not> falsy_str (tg_id (target_of (m_payload message))) \<and>
                 (repo', cm') = deliver_to_members now sender (send_event now mid message sender)
                    (list_room_members repo (the (tg_id (target_of (m_payload message))))) (repo1, cm)
            else (repo', cm') = (repo1, cm))"
    using assms s cv ins rid
    by (auto simp: handle_send_def Let_def st target_of_def send_event_def deliver_to_room_def lm
        split: if_splits prod.splits sum.splits)
  then show ?thesis using s cv rid r1 by (auto simp: Let_def)
qed

lemma live_same_conn:
  "by_user cm u = Some conn \<Longrightarrow> by_user cm v = Some conn \<Longrightarrow> live cm v ev = live cm u ev"
  by (simp add: live_iff)

lemma written_count_live:
  assumes "live cm r ev" "by_user cm r = Some conn"
  shows "filter (\<lambda>m. served sender m \<and> live cm m ev \<and> by_user cm m = Some conn) ms =
         filter (\<lambda>x. x \<noteq> [] \<and> by_user cm x = Some conn) (filter (\<lambda>m. m \<noteq> sender) ms)"
proof -
  have "(served sender m \<and> live cm m ev \<and> by_user cm m = Some conn) =
        (m \<noteq> sender \<and> m \<noteq> [] \<and> by_user cm m = Some conn)" for m
    using assms live_same_conn[of cm r conn m ev] by (auto simp: served_def)
  then show ?thesis by (simp add: conj_commute conj_left_commute)
qed

lemma written_count_not_live:
  assumes "\<not> live cm r ev" "by_user cm r = Some conn"
  shows "filter (\<lambda>m. served sender m \<and> live cm m ev \<and> by_user cm m = Some conn) ms = []"
  using assms by (auto simp: filter_empty_conv live_iff)

text \<open>
  Claim C1, as amended. Let \<open>handle_send\<close> return its ack (status 200) for an authenticated sender, in a
  store that respects the primary key of \<open>room_members\<close>, and let \<open>r\<close> be an intended
  recipient with a non-empty id: the target user, or a member of the target room other than
  the sender. Then exactly one of two things happened for \<open>r\<close>. Either \<open>send_to_user\<close>
  returned \<open>True\<close> for \<open>r\<close>: the offline queue of \<open>r\<close> is as before, and the connection \<open>r\<close>
  is bound to has received the frame of the event once for every recipient bound to it.
  Or \<open>send_to_user\<close> returned \<open>False\<close>: the event was appended once to the offline queue of
  \<open>r\<close>, and the connection of \<open>r\<close>, if there is one, has received nothing.
\<close>

theorem send_delivers_or_enqueues:
  assumes acc: "handle_send now mid message c (repo, cm) = (Inr ack, repo', cm')"
    and sender: "ctx_user_id (contexts cm c) = Some sender"
    and keys: "members_ok repo"
    and r: "r \<in> set (intended_recipients repo sender (target_of (m_payload message)))"
    and ne: "r \<noteq> []"
  shows "json_member ack ''payload'' =
           Some (JObj [(''status'', JInt 200), (''message_id'', JStr mid)]) \<and>
         (if live cm r (send_event now mid message sender)
          then pending repo' r = pending repo r \<and>
               (\<exists>conn. by_user cm r = Some conn \<and>
                  w_written (writers cm' conn) =
                    w_written (writers cm conn) @
                    replicate
                      (length (filter (\<lambda>x. x \<noteq> [] \<and> by_user cm x = Some conn)
                         (intended_recipients repo sender (target_of (m_payload message)))))
                      (frame_of (send_event now mid message sender)))
          else pending repo' r = pending repo r @ [send_event now mid message sender] \<and>
               (\<forall>conn. by_user cm r = Some conn \<longrightarrow>
                  w_written (writers cm' conn) = w_written (writers cm conn)))"
proof -
  let ?tgt = "target_of (m_payload message)"
  let ?ev = "send_event now mid message sender"
  let ?rs = "intended_recipients repo sender ?tgt"
  from handle_send_accepted[OF acc] sender obtain request_id rows where
    ack: "ack = message_ack now request_id (headers_with_version message) mid" and
    run: "if tg_type ?tgt = Some ''user''
          then (repo', cm') = snd (deliver_to_user now (repo\<lparr>messages := rows\<rparr>, cm) (tg_id ?tgt) ?ev)
          else if tg_type ?tgt = Some ''room''
          then \<not> falsy_str (tg_id ?tgt) \<and>
               (repo', cm') = deliver_to_members now sender ?ev
                  (list_room_members repo (the (tg_id ?tgt))) (repo\<lparr>messages := rows\<rparr>, cm)
          else (repo', cm') = (repo\<lparr>messages := rows\<rparr>, cm)"
    by (auto simp: Let_def)
  have p: "json_member ack ''payload'' =
           Some (JObj [(''status'', JInt 200), (''message_id'', JStr mid)])"
    by (simp add: ack message_ack_def json_member_def)
  have "tg_type ?tgt = Some ''user'' \<or> tg_type ?tgt = Some ''room''"
  proof (rule ccontr)
    assume "\<not> (tg_type ?tgt = Some ''user'' \<or> tg_type ?tgt = Some ''room'')"
    then have "?rs = []" by (simp add: intended_recipients_def)
    with r show False by simp
  qed
  then consider (user) "tg_type ?tgt = Some ''user''"
    | (room) "tg_type ?tgt \<noteq> Some ''user''" "tg_type ?tgt = Some ''room''"
    by blast
  then have "if live cm r ?ev
          then pending repo' r = pending repo r \<and>
               (\<exists>conn. by_user cm r = Some conn \<and>
                  w_written (writers cm' conn) =
                    w_written (writers cm conn) @
                    replicate (length (filter (\<lambda>x. x \<noteq> [] \<and> by_user cm x = Some conn) ?rs))
                      (frame_of ?ev))
          else pending repo' r = pending repo r @ [?ev] \<and>
               (\<forall>conn. by_user cm r = Some conn \<longrightarrow>
                  w_written (writers cm' conn) = w_written (writers cm conn))"
  proof cases
    case user
    have tid: "tg_id ?tgt = Some r"
      using r user by (cases "tg_id ?tgt") (simp_all add: intended_recipients_def)
    have rs: "?rs = [r]"
      using user tid by (simp add: intended_recipients_def)
    have d: "(repo', cm') = snd (deliver_to_user now (repo\<lparr>messages := rows\<rparr>, cm) (Some r) ?ev)"
      using run user tid by simp
    show ?thesis
    proof (cases "live cm r ?ev")
      case True
      from deliver_live[OF ne True, of now "repo\<lparr>messages := rows\<rparr>"] d
      show ?thesis using True ne by (auto simp: rs)
    next
      case False
      from deliver_not_live[OF ne False, of now "repo\<lparr>messages := rows\<rparr>"] d
      show ?thesis using False by (auto simp: pending_enqueue)
    qed
  next
    case room
    have "tg_id ?tgt \<noteq> None"
      using r room by (cases "tg_id ?tgt") (simp_all add: intended_recipients_def)
    then obtain rm where tid: "tg_id ?tgt = Some rm" by blast
    let ?ms = "list_room_members repo rm"
    have rs: "?rs = filter (\<lambda>m. m \<noteq> sender) ?ms"
      using room tid by (simp add: intended_recipients_def)
    have rin: "r \<in> set ?ms" and rns: "r \<noteq> sender" using r rs by auto
    have sv: "served sender r" using rns ne by (simp add: served_def)
    have "deliver_to_members now sender ?ev ?ms (repo\<lparr>messages := rows\<rparr>, cm) = (repo', cm')"
      using run room tid by simp
    note eff = deliver_to_members_effect[OF this]
    have w: "w_written (writers cm' conn) =
      w_written (writers cm conn) @
      replicate (length (filter (\<lambda>m. served sender m \<and> live cm m ?ev \<and> by_user cm m = Some conn) ?ms))
        (frame_of ?ev)" for conn using eff by blast
    have q: "pending repo' r =
      pending repo r @
      replicate (length (filter (\<lambda>m. served sender m \<and> \<not> live cm m ?ev \<and> m = r) ?ms)) ?ev"
      using eff by simp
    show ?thesis
    proof (cases "live cm r ?ev")
      case True
      then obtain conn where conn: "by_user cm r = Some conn" by (auto simp: live_iff)
      have "filter (\<lambda>m. served sender m \<and> \<not> live cm m ?ev \<and> m = r) ?ms = []"
        using True by (auto simp: filter_empty_conv)
      then have "pending repo' r = pending repo r" using q by simp
      moreover have "w_written (writers cm' conn) =
                    w_written (writers cm conn) @
                    replicate (length (filter (\<lambda>x. x \<noteq> [] \<and> by_user cm x = Some conn) ?rs))
                      (frame_of ?ev)"
        using w[of conn] written_count_live[OF True conn, of sender ?ms] by (simp add: rs)
      ultimately show ?thesis using True conn by simp
    next
      case False
      have "filter (\<lambda>m. served sender m \<and> \<not> live cm m ?ev \<and> m = r) ?ms = filter (\<lambda>m. m = r) ?ms"
        using False sv by (intro filter_cong) auto
      then have "pending repo' r = pending repo r @ [?ev]"
        using q length_filter_eq_distinct[OF distinct_room_members[OF keys] rin] by simp
      moreover have "w_written (writers cm' conn) = w_written (writers cm conn)"
        if "by_user cm r = Some conn" for conn
        using w[of conn] written_count_not_live[OF False that, of sender ?ms] by simp
      ultimately show ?thesis using False by simp
    qed
  qed
  with p show ?thesis by simp
qed

lemma demo_send_accepted:
  "\<exists>ack repo' cm'. handle_send 7 ''m1'' demo_message 0 (demo_store, demo_manager) = (Inr ack, repo', cm')"
  by (simp add: handle_send_def demo_message_def demo_store_def demo_manager_def empty_store_def
      empty_manager_def falsy_str_def insert_message_def Let_def deliver_to_room_def room_exists_def
      list_room_members_def split: prod.splits)

lemma demo_members_ok: "members_ok demo_store"
  by (simp add: members_ok_def demo_store_def empty_store_def)

lemma demo_recipients:
  "intended_recipients demo_store ''alice'' (target_of (m_payload demo_message)) = [''bob'', ''carol'']"
  by (simp add: intended_recipients_def target_of_def demo_message_def list_room_members_def
      demo_store_def empty_store_def)

lemma demo_live_bob: "live demo_manager ''bob'' (send_event 7 ''m1'' demo_message ''alice'')"
  by (simp add: live_def send_to_user_def demo_manager_def empty_manager_def encode_msg_def
      send_event_def message_event_def demo_message_def headers_with_version_def setdefault_def
      DEFAULT_VERSION_def MAX_PAYLOAD_SIZE_def encode_basestring_def escape_char_def dec_int_def dec_nat.simps Let_def
      byte_def)

lemma demo_not_live_carol: "\<not> live demo_manager ''carol'' (send_event 7 ''m1'' demo_message ''alice'')"
  by (simp add: live_def send_to_user_def demo_manager_def empty_manager_def)

theorem send_delivers_or_enqueues_witness:
  "\<exists>ack repo' cm'.
     handle_send 7 ''m1'' demo_message 0 (demo_store, demo_manager) = (Inr ack, repo', cm') \<and>
     ctx_user_id (contexts demo_manager 0) = Some ''alice'' \<and>
     members_ok demo_store \<and>
     intended_recipients demo_store ''alice'' (target_of (m_payload demo_message)) =
       [''bob'', ''carol''] \<and>
     \<not> live demo_manager ''carol'' (send_event 7 ''m1'' demo_message ''alice'') \<and>
     pending repo' ''carol'' = [send_event 7 ''m1'' demo_message ''alice''] \<and>
     by_user demo_manager ''carol'' = None \<and>
     live demo_manager ''bob'' (send_event 7 ''m1'' demo_message ''alice'') \<and>
     pending repo' ''bob'' = [] \<and>
     by_user demo_manager ''bob'' = Some 1 \<and>
     w_written (writers cm' 1) = [frame_of (send_event 7 ''m1'' demo_message ''alice'')]"
proof -
  obtain ack repo' cm' where
    h: "handle_send 7 ''m1'' demo_message 0 (demo_store, demo_manager) = (Inr ack, repo', cm')"
    using demo_send_accepted by blast
  have s: "ctx_user_id (contexts demo_manager 0) = Some ''alice''"
    by (simp add: demo_manager_def)
  have p0: "pending demo_store u = []" for u
    by (simp add: pending_def demo_store_def empty_store_def)
  have w0: "w_written (writers demo_manager conn) = []" for conn
    by (simp add: demo_manager_def empty_manager_def)
  have bu: "by_user demo_manager ''bob'' = Some 1" "by_user demo_manager ''carol'' = None"
    by (simp_all add: demo_manager_def empty_manager_def)
  have carol: "pending repo' ''carol'' = [send_event 7 ''m1'' demo_message ''alice'']"
    using send_delivers_or_enqueues[OF h s demo_members_ok, of "''carol''"]
    by (simp add: demo_recipients demo_not_live_carol p0)
  have bob: "pending repo' ''bob'' = [] \<and>
     w_written (writers cm' 1) = [frame_of (send_event 7 ''m1'' demo_message ''alice'')]"
    using send_delivers_or_enqueues[OF h s demo_members_ok, of "''bob''"]
    by (simp add: demo_recipients demo_live_bob p0 w0 bu)
  show ?thesis
    using h s demo_members_ok demo_recipients demo_not_live_carol demo_live_bob carol bob bu
    by simp
qed

text \<open>
  Claim C1 as stated fails for a recipient whose id is empty. Alice's send to the user target
  with the id \<open>""\<close> is accepted: the handler stores the message and returns the ack with
  status 200. The target user is the one intended recipient, and \<open>_deliver_to_user\<close> returns
  \<open>False\<close> at once for the empty id: the registry is as before, so no connection has
  received the event, and the offline queue is as before, so the event was not enqueued.
\<close>

theorem send_to_empty_target_counterexample:
  "handle_send 7 ''m1'' empty_target_message 0 (demo_store, demo_manager) =
     (Inr (message_ack 7 (JStr ''2'') [(''version'', JStr ''1.0'')] ''m1''),
      demo_store\<lparr>messages :=
        [\<lparr>mr_message_id = ''m1'', mr_conversation_id = ''dm'', mr_sender_id = ''alice'',
          mr_content = JObj [(''text'', JStr ''hello'')], mr_timestamp = 7\<rparr>]\<rparr>,
      demo_manager) \<and>
   json_member (message_ack 7 (JStr ''2'') [(''version'', JStr ''1.0'')] ''m1'') ''payload'' =
     Some (JObj [(''status'', JInt 200), (''message_id'', JStr ''m1'')]) \<and>
   intended_recipients demo_store ''alice'' (target_of (m_payload empty_target_message)) = [[]] \<and>
   offline_queue
     (demo_store\<lparr>messages :=
        [\<lparr>mr_message_id = ''m1'', mr_conversation_id = ''dm'', mr_sender_id = ''alice'',
          mr_content = JObj [(''text'', JStr ''hello'')], mr_timestamp = 7\<rparr>]\<rparr>) = []"
  by (simp add: handle_send_def empty_target_message_def demo_store_def demo_manager_def
      empty_store_def empty_manager_def falsy_str_def insert_message_def Let_def
      deliver_to_user_def headers_with_version_def setdefault_def DEFAULT_VERSION_def
      message_ack_def json_member_def intended_recipients_def target_of_def)

lemma touch_keeps_user [simp]: "ctx_user_id (contexts (touch_ctx now c cm) c') = ctx_user_id (contexts cm c')"
  by (simp add: touch_ctx_def touch_def)



section \<open>Properties of the server loop\<close>

lemma message_of_simps [simp]:
  "m_id (message_of payload_of frame headers) = map_of frame ''id''"
  "m_command (message_of payload_of frame headers) = map_of frame ''command''"
  "m_headers (message_of payload_of frame headers) = headers"
  by (simp_all add: message_of_def)

text \<open>
  Claim C5, as amended. Take a decoded frame that is a JSON object, whose command is not a
  list or a dictionary, and whose headers are absent, falsy or a dictionary, with a version
  that is not the string \<open>1.0\<close> (\<open>header_version\<close> is \<open>0.0\<close> when there are no headers or no
  version). The frame is answered from the \<open>except\<close> clause with one error response: status
  426 (\<open>UPGRADE_REQUIRED\<close>), error code 1002 (\<open>VERSION_MISMATCH\<close>), the id of the request. The
  registry and the state of the services are the ones the loop started with, whatever the
  router and the schema check are: no handler ran and \<open>touch\<close> was not called. On the wire,
  the turn of the loop appends the frame of that response to the writer of the connection
  and goes on, unless the writer fails, or the response has no UTF-8 encoding (the id of the
  request holds a lone surrogate) or is too large for \<open>encode_msg\<close>, in which case the
  exception of \<open>_send\<close> ends the loop.
\<close>

theorem version_gate:
  assumes hdr: "frame_headers (map_of frame ''headers'') = Inr headers"
    and ver: "header_version headers \<noteq> JStr ''1.0''"
    and cmd: "hashable (case map_of frame ''command'' of None \<Rightarrow> JStr [] | Some k \<Rightarrow> k)"
  shows "\<exists>r etext.
           process_frame py_str schema_check router now payload_of (JObj frame) c (cm, st) =
             ErrorResponse r (cm, st) \<and>
           json_member r ''payload'' =
             Some (JObj [(''status'', JInt 426), (''error_code'', JInt 1002),
                         (''error_message'', JStr etext)]) \<and>
           json_member r ''type'' = Some (JStr ''response'') \<and>
           json_member r ''id'' = Some (json_of_opt (map_of frame ''id'')) \<and>
           frame_turn py_str schema_check router now payload_of (JObj frame) c (cm, st) =
             (if w_failing (writers cm c) \<or> \<not> utf8_valid (json_dumps r) \<or>
                 length (json_dumps r) > MAX_PAYLOAD_SIZE
              then (False, cm, st)
              else (True,
                    cm\<lparr>writers := (writers cm)
                         (c := (writers cm c)\<lparr>w_written := w_written (writers cm c) @
                                 [json_dumps r @ FRAME_DELIMITER]\<rparr>)\<rparr>,
                    st))"
proof -
  let ?message = "message_of payload_of frame headers"
  define etext where "etext = ''Protocol version mismatch: expected '' @ DEFAULT_VERSION @ '', got '' @
                   py_str (header_version headers)"
  have v: "validate_version py_str headers =
      Inl (ProtocolError UPGRADE_REQUIRED (Some VERSION_MISMATCH) etext)"
    using ver by (simp add: validate_version_def Let_def DEFAULT_VERSION_def etext_def)
  have h: "hashable (requested_command ?message)"
    using cmd by (simp add: requested_command_def)
  let ?r = "error_response (Some ?message) UPGRADE_REQUIRED (Some VERSION_MISMATCH) etext"
  have p: "process_message py_str schema_check router now ?message c (cm, st) =
           ErrorResponse ?r (cm, st)"
    by (simp add: process_message_def validate_msg_def v h)
  have pf: "process_frame py_str schema_check router now payload_of (JObj frame) c (cm, st) =
            ErrorResponse ?r (cm, st)"
    by (simp add: process_frame_def hdr p)
  have "json_member ?r ''payload'' = Some (JObj [(''status'', JInt 426), (''error_code'', JInt 1002),
                         (''error_message'', JStr etext)])"
    by (simp add: json_member_def error_response_def Let_def to_payload_def)
  moreover have "json_member ?r ''type'' = Some (JStr ''response'')"
    by (simp add: json_member_def error_response_def Let_def)
  moreover have "json_member ?r ''id'' = Some (json_of_opt (map_of frame ''id''))"
    by (simp add: json_member_def error_response_def Let_def)
  moreover have "frame_turn py_str schema_check router now payload_of (JObj frame) c (cm, st) =
             (if w_failing (writers cm c) \<or> \<not> utf8_valid (json_dumps ?r) \<or>
                 length (json_dumps ?r) > MAX_PAYLOAD_SIZE
              then (False, cm, st)
              else (True,
                    cm\<lparr>writers := (writers cm)
                         (c := (writers cm c)\<lparr>w_written := w_written (writers cm c) @
                                 [json_dumps ?r @ FRAME_DELIMITER]\<rparr>)\<rparr>,
                    st))"
    by (simp add: frame_turn_def hdr loop_turn_def p send_def encode_msg_def Let_def)
  ultimately show ?thesis using pf by blast
qed

theorem version_gate_witness:
  "frame_headers (map_of [(''id'', JStr ''1''), (''command'', JStr ''message/send''),
                          (''headers'', JObj [(''version'', JStr ''2.0'')])] ''headers'') =
     Inr (Some [(''version'', JStr ''2.0'')]) \<and>
   header_version (Some [(''version'', JStr ''2.0'')]) \<noteq> JStr ''1.0'' \<and>
   (\<exists>r etext.
      process_frame (\<lambda>v. ''2.0'') (\<lambda>m. None) [''message/send'' \<mapsto> send_handler 7 ''m1''] 7
        (\<lambda>f. m_payload demo_message)
        (JObj [(''id'', JStr ''1''), (''command'', JStr ''message/send''),
               (''headers'', JObj [(''version'', JStr ''2.0'')])]) 0
        (demo_manager, demo_store) = ErrorResponse r (demo_manager, demo_store) \<and>
      json_member r ''payload'' =
        Some (JObj [(''status'', JInt 426), (''error_code'', JInt 1002),
                    (''error_message'', JStr etext)]) \<and>
      json_member r ''id'' = Some (JStr ''1''))"
  using version_gate
    [of "[(''id'', JStr ''1''), (''command'', JStr ''message/send''),
          (''headers'', JObj [(''version'', JStr ''2.0'')])]"
        "Some [(''version'', JStr ''2.0'')]" "\<lambda>v. ''2.0''"
        "\<lambda>m. None" "[''message/send'' \<mapsto> send_handler 7 ''m1'']" 7
        "\<lambda>f. m_payload demo_message" 0 demo_manager demo_store]
  by (auto simp: header_version_def frame_headers_def json_of_opt_def)

text \<open>
  Claim C5 as stated fails for two kinds of frame with a wrong version. A frame whose
  command is a list makes the cached \<open>load_schema\<close> raise \<open>TypeError\<close> before the version is
  looked at; a frame whose headers are a non-empty string makes \<open>validate_version\<close> raise
  \<open>AttributeError\<close>. Neither is a \<open>ProtocolError\<close>: the loop ends, the connection is
  closed, and no response was written.
\<close>

theorem version_gate_counterexample:
  "process_frame (\<lambda>v. ''2.0'') (\<lambda>m. None) [''message/send'' \<mapsto> send_handler 7 ''m1''] 7
     (\<lambda>f. m_payload demo_message)
     (JObj [(''id'', JStr ''1''), (''command'', JArr []),
            (''headers'', JObj [(''version'', JStr ''2.0'')])]) 0
     (demo_manager, demo_store) = Closed ''TypeError'' (demo_manager, demo_store) \<and>
   frame_turn (\<lambda>v. ''2.0'') (\<lambda>m. None) [''message/send'' \<mapsto> send_handler 7 ''m1''] 7
     (\<lambda>f. m_payload demo_message)
     (JObj [(''id'', JStr ''1''), (''command'', JArr []),
            (''headers'', JObj [(''version'', JStr ''2.0'')])]) 0
     (demo_manager, demo_store) = (False, demo_manager, demo_store) \<and>
   process_frame (\<lambda>v. ''2.0'') (\<lambda>m. None) [''message/send'' \<mapsto> send_handler 7 ''m1''] 7
     (\<lambda>f. m_payload demo_message)
     (JObj [(''id'', JStr ''1''), (''command'', JStr ''message/send''),
            (''headers'', JStr ''2.0'')]) 0
     (demo_manager, demo_store) = Closed ''AttributeError'' (demo_manager, demo_store) \<and>
   frame_turn (\<lambda>v. ''2.0'') (\<lambda>m. None) [''message/send'' \<mapsto> send_handler 7 ''m1''] 7
     (\<lambda>f. m_payload demo_message)
     (JObj [(''id'', JStr ''1''), (''command'', JStr ''message/send''),
            (''headers'', JStr ''2.0'')]) 0
     (demo_manager, demo_store) = (False, demo_manager, demo_store)"
  by (simp add: process_frame_def frame_turn_def frame_headers_def process_message_def
      loop_turn_def requested_command_def message_of_def)

section \<open>Properties of the auth service\<close>

text \<open>
  Claim C7, as amended. Take a register request whose username and password are truthy
  values that SQLite binds as text: non-empty strings with a UTF-8 encoding, or non-zero
  integers of 64 bits, or \<open>true\<close> (\<open>handle_register\<close> raises \<open>BAD_REQUEST\<close> before anything
  else when one of the two is missing or falsy). It has one of two outcomes. When no user
  has the text of the username, the ack has status 200, the username as the user id and an
  empty token, and the handler leaves the store it found with one more row in \<open>users\<close>:
  sessions, presence and every other table are as before, and so is the registry (no
  context changed, no user bound). When the username is taken, the ack has status 409
  and error code 1006 (\<open>USER_EXISTS\<close>), and the store and the registry are unchanged.
\<close>

theorem register_creates_user_only:
  assumes "lp_username (m_payload message) = Some username" and "truthy username"
    and "sql_bind username = Inr (SqlText u)"
    and "lp_password (m_payload message) = Some password" and "truthy password"
    and "sql_bind password = Inr (SqlText pw)"
  shows "(users repo u = None \<longrightarrow>
            (\<exists>ack. handle_register now message c (repo, cm) =
                     (Inr ack,
                      repo\<lparr>users := (users repo)(u \<mapsto>
                             \<lparr>ur_password_hash = pw, ur_created_at = now\<rparr>)\<rparr>,
                      cm) \<and>
                   json_member ack ''command'' = Some (JStr ''auth/register_ack'') \<and>
                   json_member ack ''payload'' =
                     Some (JObj [(''status'', JInt 200), (''token'', JStr []),
                                 (''user_id'', username), (''expires_in'', JInt 0)]))) \<and>
         (users repo u \<noteq> None \<longrightarrow>
            (\<exists>ack. handle_register now message c (repo, cm) = (Inr ack, repo, cm) \<and>
                   json_member ack ''command'' = Some (JStr ''auth/register_ack'') \<and>
                   json_member ack ''payload'' =
                     Some (JObj [(''status'', JInt 409), (''token'', JStr []),
                                 (''user_id'', JStr []), (''expires_in'', JInt 0),
                                 (''error_message'', JStr ''User already exists''),
                                 (''error_code'', JInt 1006)])))"
  using assms
  by (simp add: handle_register_def falsy_def falsy_str_def user_exists_def create_user_def Let_def
      register_conflict_def login_response_def json_member_def)

lemma demo_no_dave: "users demo_store ''dave'' = None"
  by (simp add: demo_store_def empty_store_def)

lemma ascii_bind:
  "sql_bind (JStr ''dave'') = Inr (SqlText ''dave'')"
  "sql_bind (JStr ''secret'') = Inr (SqlText ''secret'')"
  "sql_bind (JStr ''other'') = Inr (SqlText ''other'')"
  by (simp_all add: sql_bind_def byte_def)

theorem register_creates_user_only_witness:
  "(\<exists>ack. handle_register 7 (register_message ''dave'' ''secret'') 0 (demo_store, demo_manager) =
          (Inr ack,
           demo_store\<lparr>users := (users demo_store)(''dave'' \<mapsto>
              \<lparr>ur_password_hash = ''secret'', ur_created_at = 7\<rparr>)\<rparr>,
           demo_manager) \<and>
          json_member ack ''payload'' =
            Some (JObj [(''status'', JInt 200), (''token'', JStr []),
                        (''user_id'', JStr ''dave''), (''expires_in'', JInt 0)])) \<and>
   (\<exists>ack. handle_register 8 (register_message ''dave'' ''other'') 0
            (demo_store\<lparr>users := [''dave'' \<mapsto>
                 \<lparr>ur_password_hash = ''secret'', ur_created_at = 7\<rparr>]\<rparr>, demo_manager) =
          (Inr ack,
           demo_store\<lparr>users := [''dave'' \<mapsto>
              \<lparr>ur_password_hash = ''secret'', ur_created_at = 7\<rparr>]\<rparr>,
           demo_manager) \<and>
          json_member ack ''payload'' =
            Some (JObj [(''status'', JInt 409), (''token'', JStr []),
                        (''user_id'', JStr []), (''expires_in'', JInt 0),
                        (''error_message'', JStr ''User already exists''),
                        (''error_code'', JInt 1006)]))"
  using demo_no_dave
    register_creates_user_only
      [of "register_message ''dave'' ''secret''" "JStr ''dave''" "''dave''" "JStr ''secret''"
          "''secret''" demo_store 7 0 demo_manager]
    register_creates_user_only
      [of "register_message ''dave'' ''other''" "JStr ''dave''" "''dave''" "JStr ''other''"
          "''other''"
          "demo_store\<lparr>users := [''dave'' \<mapsto>
             \<lparr>ur_password_hash = ''secret'', ur_created_at = 7\<rparr>]\<rparr>" 8 0 demo_manager]
  by (auto simp: register_message_def ascii_bind)

text \<open>
  Claim C7 as stated fails for credentials that the store cannot take. The username
  \<open>dave\<close> is not taken in the demo store. With a password that is a lone surrogate (the
  JSON string of the escape for U+D800), \<open>create_user\<close> raises \<open>UnicodeEncodeError\<close>, a
  \<open>ValueError\<close>, and the request is answered with 409 and \<open>USER_EXISTS\<close>; no row is created.
  With such a username, \<open>user_exists\<close> raises outside the \<open>try\<close>: there is no ack at all. With
  an empty password the handler raises \<open>BAD_REQUEST\<close>.
\<close>

theorem register_counterexample:
  "users demo_store ''dave'' = None \<and>
   handle_register 7 (register_message ''dave'' [CHR 0xED, CHR 0xA0, CHR 0x80]) 0
     (demo_store, demo_manager) =
     (Inr (register_conflict 7 (register_message ''dave'' [CHR 0xED, CHR 0xA0, CHR 0x80])),
      demo_store, demo_manager) \<and>
   json_member (register_conflict 7 (register_message ''dave'' [CHR 0xED, CHR 0xA0, CHR 0x80]))
     ''payload'' =
     Some (JObj [(''status'', JInt 409), (''token'', JStr []),
                 (''user_id'', JStr []), (''expires_in'', JInt 0),
                 (''error_message'', JStr ''User already exists''),
                 (''error_code'', JInt 1006)]) \<and>
   handle_register 7 (register_message [CHR 0xED, CHR 0xA0, CHR 0x80] ''secret'') 0
     (demo_store, demo_manager) =
     (Inl (Unhandled ''UnicodeEncodeError''), demo_store, demo_manager) \<and>
   handle_register 7 (register_message ''dave'' []) 0 (demo_store, demo_manager) =
     (Inl (ProtocolError BAD_REQUEST None ''Missing credentials''), demo_store, demo_manager)"
  by (simp add: demo_no_dave handle_register_def register_message_def falsy_def user_exists_def
      create_user_def sql_bind_def byte_def continuation_def is_value_error_def Let_def
      register_conflict_def login_response_def json_member_def falsy_str_def)

section \<open>Properties of the friend service\<close>

lemma find_Some_set: "find P xs = Some x \<Longrightarrow> x \<in> set xs \<and> P x"
  by (auto simp: find_Some_iff)

lemma find_set_status:
  "find (\<lambda>r. fr_id r = R) (set_status now R st rows) =
   map_option (\<lambda>r. r\<lparr>fr_status := st, fr_updated_at := now\<rparr>) (find (\<lambda>r. fr_id r = R) rows)"
  by (induction rows) (auto simp: set_status_def)

lemma pending_after_set_status:
  "st \<noteq> ''pending'' \<Longrightarrow>
   find (\<lambda>r. fr_id r = R) (filter (\<lambda>r. fr_to_user r = u \<and> fr_status r = ''pending'') (set_status now R st rows)) = None"
  by (induction rows) (auto simp: set_status_def)

lemma no_pending_after_set_status:
  "st \<noteq> ''pending'' \<Longrightarrow>
   find (\<lambda>r. fr_id r = R \<and> fr_status r = ''pending'') (set_status now R st rows) = None"
  by (induction rows) (auto simp: set_status_def)

lemma accept_pending_row:
  assumes "find (\<lambda>r. fr_id r = R \<and> fr_status r = ''pending'') (friend_requests repo) = Some row"
    and "fr_from_user row \<noteq> fr_to_user row"
  shows "fst (accept_friend_request now repo R) = True \<and>
         are_friends (snd (accept_friend_request now repo R)) (fr_from_user row) (fr_to_user row) \<and>
         friend_requests (snd (accept_friend_request now repo R)) =
           set_status now R ''accepted'' (friend_requests repo)"
proof (cases "fr_from_user row < fr_to_user row")
  case True
  then show ?thesis using assms
    by (auto simp: accept_friend_request_def Let_def are_friends_def is_friend_row_def list_ex_iff)
next
  case False
  with assms(2) have "fr_to_user row < fr_from_user row" by simp
  then show ?thesis using assms False
    by (auto simp: accept_friend_request_def Let_def are_friends_def is_friend_row_def list_ex_iff)
qed

lemma find_pending_row:
  assumes "find (\<lambda>r. fr_id r = R) (get_pending_friend_requests repo u) = Some row"
  shows "fr_id row = R \<and> fr_to_user row = u \<and> fr_status row = ''pending'' \<and> row \<in> set (friend_requests repo)"
  using find_Some_set[OF assms] by (auto simp: get_pending_friend_requests_def)

lemma find_first_by_id:
  assumes "distinct (map fr_id rows)" "row \<in> set rows"
  shows "find (\<lambda>r. fr_id r = fr_id row) rows = Some row"
  using assms by (induction rows) (auto simp: rev_image_eqI)

lemma find_first_pending_by_id:
  assumes "distinct (map fr_id rows)" "row \<in> set rows" "fr_status row = ''pending''"
  shows "find (\<lambda>r. fr_id r = fr_id row \<and> fr_status r = ''pending'') rows = Some row"
  using assms by (induction rows) (auto simp: rev_image_eqI)

lemma notify_keeps_contexts [simp]:
  "contexts (notify_user now eid cm u command payload) = contexts cm"
  by (simp add: notify_user_def send_to_user_def split: option.splits sum.splits)

lemma status_of_friend_error:
  "response_status (friend_error_response t message s e) = Some (JInt (status_int s))"
  by (simp add: response_status_def friend_error_response_def json_member_def)

lemma handle_accept_success:
  assumes acc: "handle_accept now eid message c (repo, cm) = (Inr ack, repo', cm')"
    and success: "response_status ack = Some (JInt 200)"
  shows "\<exists>B R before.
           ctx_user_id (contexts cm c) = Some B \<and> B \<noteq> [] \<and>
           fp_request_id (m_payload message) = Some R \<and> R \<noteq> 0 \<and>
           find (\<lambda>r. fr_id r = R) (get_pending_friend_requests repo B) = Some before \<and>
           accept_friend_request now repo R = (True, repo') \<and>
           contexts cm' = contexts cm"
  using assms
  by (auto simp: handle_accept_def Let_def falsy_str_def status_of_friend_error
      split: if_splits option.splits prod.splits)

lemma requests_ok_empty: "requests_ok empty_store"
  by (simp add: requests_ok_def empty_store_def)

lemma requests_ok_rows:
  assumes "requests_ok s"
    and "map fr_id rows = map fr_id (friend_requests s)"
    and "map fr_from_user rows = map fr_from_user (friend_requests s)"
    and "map fr_to_user rows = map fr_to_user (friend_requests s)"
  shows "requests_ok (s\<lparr>friend_requests := rows\<rparr>)"
proof -
  have z: "map (\<lambda>r. (fr_from_user r, fr_to_user r)) xs = zip (map fr_from_user xs) (map fr_to_user xs)" for xs
    by (induction xs) auto
  have l: "list_all (\<lambda>r. fr_from_user r \<noteq> fr_to_user r \<and> 0 < fr_id r \<and> fr_id r \<le> n) xs \<longleftrightarrow>
        list_all (\<lambda>(i, a, b). a \<noteq> b \<and> 0 < i \<and> i \<le> n) (zip (map fr_id xs) (zip (map fr_from_user xs) (map fr_to_user xs)))" for xs n
    by (induction xs) auto
  show ?thesis using assms unfolding requests_ok_def z l by simp
qed

lemma requests_ok_friends: "requests_ok (s\<lparr>friends := f\<rparr>) = requests_ok s"
  by (simp add: requests_ok_def)

lemma requests_ok_send:
  assumes "requests_ok s" "a \<noteq> b"
  shows "requests_ok (snd (send_friend_request now s a b m))"
proof (cases "find (same_pair a b) (friend_requests s)")
  case None
  then have "\<forall>r \<in> set (friend_requests s). \<not> same_pair a b r" by (simp add: find_None_iff)
  then have "(a, b) \<notin> set (map (\<lambda>r. (fr_from_user r, fr_to_user r)) (friend_requests s))"
    by (auto simp: same_pair_def)
  moreover have "Suc (request_seq s) \<notin> set (map fr_id (friend_requests s))"
    using assms(1) by (auto simp: requests_ok_def list_all_iff)
  ultimately show ?thesis using assms None
    by (auto simp: send_friend_request_def requests_ok_def list_all_iff intro: le_SucI)
next
  case (Some old)
  have "requests_ok (s\<lparr>friend_requests := map (\<lambda>r. if same_pair a b r
                          then r\<lparr>fr_status := ''pending'', fr_message := m, fr_updated_at := now\<rparr>
                          else r) (friend_requests s)\<rparr>)"
    by (rule requests_ok_rows[OF assms(1)]) (simp_all add: comp_def if_distrib cong: if_cong)
  then show ?thesis using Some by (simp add: send_friend_request_def)
qed

lemma requests_ok_set_status:
  "requests_ok s \<Longrightarrow> requests_ok (s\<lparr>friend_requests := set_status now R st (friend_requests s)\<rparr>)"
  by (rule requests_ok_rows) (simp_all add: set_status_def comp_def if_distrib cong: if_cong)

lemma requests_ok_accept:
  assumes "requests_ok s"
  shows "requests_ok (snd (accept_friend_request now s R))"
proof -
  have a: "requests_ok (s\<lparr>friend_requests := set_status now R ''accepted'' (friend_requests s)\<rparr>)"
    using assms by (rule requests_ok_set_status)
  then have b: "requests_ok (s\<lparr>friends := f,
      friend_requests := set_status now R ''accepted'' (friend_requests s)\<rparr>)" for f
    by (simp add: requests_ok_def)
  show ?thesis using assms a b
    by (simp add: accept_friend_request_def Let_def split: option.splits)
qed

lemma requests_ok_reject:
  assumes "requests_ok s"
  shows "requests_ok (snd (reject_friend_request now s R))"
  unfolding reject_friend_request_def snd_conv
  by (rule requests_ok_rows[OF assms]) (simp_all add: comp_def if_distrib cong: if_cong)

lemma requests_ok_delete: "requests_ok s \<Longrightarrow> requests_ok (snd (delete_friend s a b))"
  by (simp add: delete_friend_def Let_def requests_ok_def)

lemma requests_ok_handle_request:
  assumes "requests_ok repo" "handle_request now eid message c (repo, cm) = (res, repo', cm')"
  shows "requests_ok repo'"
proof -
  let ?a = "the (ctx_user_id (contexts cm c))"
  let ?b = "the (fp_target_id (m_payload message))"
  let ?m = "Some (case fp_message (m_payload message) of None \<Rightarrow> [] | Some t \<Rightarrow> t)"
  have "repo' = repo \<or> (?a \<noteq> ?b \<and> repo' = snd (send_friend_request now repo ?a ?b ?m))"
    using assms(2)
    by (auto simp: handle_request_def Let_def split: if_splits prod.splits sum.splits)
  then show ?thesis using assms(1) requests_ok_send by auto
qed

lemma requests_ok_handle_accept:
  assumes "requests_ok repo" "handle_accept now eid message c (repo, cm) = (res, repo', cm')"
  shows "requests_ok repo'"
proof -
  have "repo' = repo \<or>
        repo' = snd (accept_friend_request now repo (the (fp_request_id (m_payload message))))"
    using assms(2)
    by (auto simp: handle_accept_def Let_def split: if_splits prod.splits option.splits)
  then show ?thesis using assms(1) requests_ok_accept by auto
qed

lemma requests_ok_handle_reject:
  assumes "requests_ok repo" "handle_reject now eid message c (repo, cm) = (res, repo', cm')"
  shows "requests_ok repo'"
proof -
  have "repo' = repo \<or>
        repo' = snd (reject_friend_request now repo (the (fp_request_id (m_payload message))))"
    using assms(2)
    by (auto simp: handle_reject_def Let_def split: if_splits prod.splits option.splits)
  then show ?thesis using assms(1) requests_ok_reject by auto
qed

lemma requests_ok_handle_delete_friend:
  assumes "requests_ok repo" "handle_delete_friend now eid message c (repo, cm) = (res, repo', cm')"
  shows "requests_ok repo'"
proof -
  have "repo' = repo \<or>
        repo' = snd (delete_friend repo (the (ctx_user_id (contexts cm c)))
                       (the (fp_friend_id (m_payload message))))"
    using assms(2)
    by (auto simp: handle_delete_friend_def Let_def split: if_splits prod.splits option.splits)
  then show ?thesis using assms(1) requests_ok_delete by auto
qed

text \<open>
  Claim C3, as amended. In a store that satisfies \<open>requests_ok\<close>, when \<open>handle_accept\<close> answers
  the accept of request \<open>R\<close> with status 200, the request was pending, from some user \<open>A\<close> to
  the caller \<open>B\<close>; afterwards \<open>are_friends A B\<close> holds and the row of \<open>R\<close> has the status
  \<open>accepted\<close>. Accepting \<open>R\<close> again, at any later time, changes neither the store nor the
  registry, and is answered with the error response of status 404 (\<open>NOT_FOUND\<close>) and the
  text \<open>Friend request not found or already processed\<close>, not with a success; the store's
  \<open>accept_friend_request\<close> returns \<open>False\<close> for \<open>R\<close> and leaves the store as it is.
\<close>

theorem accept_makes_friends:
  assumes ok: "requests_ok repo"
    and acc: "handle_accept now eid message c (repo, cm) = (Inr ack, repo', cm')"
    and success: "response_status ack = Some (JInt 200)"
    and rid: "fp_request_id (m_payload message) = Some R"
  shows "\<exists>A B before after.
           ctx_user_id (contexts cm c) = Some B \<and>
           request_row_of repo R = Some before \<and>
           fr_from_user before = A \<and> fr_to_user before = B \<and> fr_status before = ''pending'' \<and>
           are_friends repo' A B \<and>
           request_row_of repo' R = Some after \<and>
           fr_from_user after = A \<and> fr_to_user after = B \<and> fr_status after = ''accepted'' \<and>
           (\<forall>now2 eid2.
              handle_accept now2 eid2 message c (repo', cm') =
                (Inr (friend_error_response now2 message NOT_FOUND
                        ''Friend request not found or already processed''), repo', cm') \<and>
              response_status
                (friend_error_response now2 message NOT_FOUND
                   ''Friend request not found or already processed'') = Some (JInt 404) \<and>
              accept_friend_request now2 repo' R = (False, repo'))"
proof -
  from handle_accept_success[OF acc success] rid obtain B before where
    B: "ctx_user_id (contexts cm c) = Some B" "B \<noteq> []" and R0: "R \<noteq> 0" and
    f: "find (\<lambda>r. fr_id r = R) (get_pending_friend_requests repo B) = Some before" and
    ar: "accept_friend_request now repo R = (True, repo')" and
    cx: "contexts cm' = contexts cm"
    by auto
  note row = find_pending_row[OF f]
  have ids: "distinct (map fr_id (friend_requests repo))" using ok by (simp add: requests_ok_def)
  have ne: "fr_from_user before \<noteq> fr_to_user before"
    using ok row by (auto simp: requests_ok_def list_all_iff)
  have fp: "find (\<lambda>r. fr_id r = R \<and> fr_status r = ''pending'') (friend_requests repo) = Some before"
    using find_first_pending_by_id[OF ids, of before] row by simp
  have fb: "request_row_of repo R = Some before"
    using find_first_by_id[OF ids, of before] row by (simp add: request_row_of_def)
  from accept_pending_row[OF fp ne, of now] ar
  have fr: "are_friends repo' (fr_from_user before) (fr_to_user before)"
    and rows: "friend_requests repo' = set_status now R ''accepted'' (friend_requests repo)"
    by simp_all
  have after: "request_row_of repo' R = Some (before\<lparr>fr_status := ''accepted'', fr_updated_at := now\<rparr>)"
    using rows fb by (simp add: request_row_of_def find_set_status)
  have again: "handle_accept now2 eid2 message c (repo', cm') =
                 (Inr (friend_error_response now2 message NOT_FOUND
                         ''Friend request not found or already processed''), repo', cm') \<and>
               response_status
                 (friend_error_response now2 message NOT_FOUND
                    ''Friend request not found or already processed'') = Some (JInt 404) \<and>
               accept_friend_request now2 repo' R = (False, repo')" for now2 eid2
  proof -
    have "find (\<lambda>r. fr_id r = R) (get_pending_friend_requests repo' B) = None"
      using rows by (simp add: get_pending_friend_requests_def pending_after_set_status)
    then have h: "handle_accept now2 eid2 message c (repo', cm') =
                 (Inr (friend_error_response now2 message NOT_FOUND
                         ''Friend request not found or already processed''), repo', cm')"
      using rid R0 B cx by (simp add: handle_accept_def Let_def falsy_str_def)
    have "find (\<lambda>r. fr_id r = R \<and> fr_status r = ''pending'') (friend_requests repo') = None"
      using rows by (simp add: no_pending_after_set_status)
    then have a: "accept_friend_request now2 repo' R = (False, repo')"
      by (simp add: accept_friend_request_def)
    show ?thesis using h a by (simp add: status_of_friend_error)
  qed
  show ?thesis
    using B fb row fr after again by auto
qed

lemma first_accept_eval:
  "first_accept =
     (Inr (JObj [(''id'', JStr ''9''), (''type'', JStr ''response''), (''timestamp'', JInt 3),
                 (''command'', JStr ''friend/accept_ack''),
                 (''headers'', JObj [(''version'', JStr ''1.0'')]),
                 (''payload'', JObj [(''status'', JInt 200), (''friend_id'', JStr ''alice''),
                                     (''message'', JStr ''Friend request accepted'')])]),
      friend_store
        \<lparr>friends := [\<lparr>fd_user1 = ''alice'', fd_user2 = ''bob'', fd_created_at = 3\<rparr>],
         friend_requests :=
           [\<lparr>fr_id = 1, fr_from_user = ''alice'', fr_to_user = ''bob'', fr_message = Some [],
             fr_status = ''accepted'', fr_created_at = 2, fr_updated_at = 3\<rparr>]\<rparr>,
      demo_manager
        \<lparr>writers := (writers demo_manager)
           (0 := \<lparr>w_failing = False,
                   w_written = [frame_of (friend_event 3 ''e1'' ''friend/event''
                      (JObj [(''event_type'', JStr ''request_accepted''),
                             (''user_id'', JStr ''bob''), (''request_id'', JInt 1)]))]\<rparr>)\<rparr>)"
  by (simp add: first_accept_def handle_accept_def accept_message_def friend_store_def
      demo_manager_def empty_manager_def empty_store_def falsy_str_def Let_def
      get_pending_friend_requests_def accept_friend_request_def is_friend_row_def set_status_def
      notify_user_def send_to_user_def encode_msg_def friend_event_def frame_of_def
      friend_ok_response_def headers_with_version_def setdefault_def DEFAULT_VERSION_def
      MAX_PAYLOAD_SIZE_def encode_basestring_def escape_char_def dec_int_def dec_nat.simps
      byte_def)

text \<open>
  Claim C3 as stated fails on its last part: in the demo state, bob's first accept of
  request 1 is answered with status 200, and his second accept of the same request with
  status 404; the second call changes nothing, and the store's \<open>accept_friend_request\<close>
  returns \<open>False\<close> for the request that is already accepted.
\<close>

theorem double_accept_counterexample:
  "map_sum id response_status (fst first_accept) = Inr (Some (JInt 200)) \<and>
   map_sum id response_status
     (fst (handle_accept 4 ''e2'' accept_message 1 (snd first_accept))) = Inr (Some (JInt 404)) \<and>
   snd (handle_accept 4 ''e2'' accept_message 1 (snd first_accept)) = snd first_accept \<and>
   \<not> fst (accept_friend_request 4 (fst (snd first_accept)) 1)"
  by (simp add: first_accept_eval response_status_def json_member_def handle_accept_def
      accept_message_def demo_manager_def empty_manager_def falsy_str_def Let_def
      get_pending_friend_requests_def accept_friend_request_def friend_error_response_def)

theorem accept_makes_friends_witness:
  "\<exists>ack repo' cm'.
     handle_accept 3 ''e1'' accept_message 1 (friend_store, demo_manager) = (Inr ack, repo', cm') \<and>
     requests_ok friend_store \<and>
     response_status ack = Some (JInt 200) \<and>
     fp_request_id (m_payload accept_message) = Some 1 \<and>
     are_friends repo' ''alice'' ''bob'' \<and>
     map_option fr_status (request_row_of repo' 1) = Some ''accepted'' \<and>
     handle_accept 4 ''e2'' accept_message 1 (repo', cm') =
       (Inr (friend_error_response 4 accept_message NOT_FOUND
               ''Friend request not found or already processed''), repo', cm') \<and>
     accept_friend_request 4 repo' 1 = (False, repo')"
proof -
  obtain ack repo' cm' where
    h: "handle_accept 3 ''e1'' accept_message 1 (friend_store, demo_manager) = (Inr ack, repo', cm')"
    and s: "response_status ack = Some (JInt 200)"
    using first_accept_eval
    by (simp add: first_accept_def response_status_def json_member_def)
  have ok: "requests_ok friend_store"
    by (simp add: requests_ok_def friend_store_def empty_store_def)
  have rid: "fp_request_id (m_payload accept_message) = Some 1"
    by (simp add: accept_message_def)
  have row: "request_row_of friend_store 1 =
      Some \<lparr>fr_id = 1, fr_from_user = ''alice'', fr_to_user = ''bob'', fr_message = Some [],
            fr_status = ''pending'', fr_created_at = 2, fr_updated_at = 2\<rparr>"
    by (simp add: request_row_of_def friend_store_def empty_store_def)
  from accept_makes_friends[OF ok h s rid] row
  have "are_friends repo' ''alice'' ''bob'' \<and>
     map_option fr_status (request_row_of repo' 1) = Some ''accepted'' \<and>
     handle_accept 4 ''e2'' accept_message 1 (repo', cm') =
       (Inr (friend_error_response 4 accept_message NOT_FOUND
               ''Friend request not found or already processed''), repo', cm') \<and>
     accept_friend_request 4 repo' 1 = (False, repo')"
    by auto
  with h ok s rid show ?thesis by blast
qed

section \<open>Properties of the room service\<close>

lemma set_list_room_members:
  "u \<in> set (list_room_members s r) \<longleftrightarrow>
   (\<exists>m \<in> set (room_members s). mb_room_id m = r \<and> mb_user_id m = u)"
  by (auto simp: list_room_members_def)

lemma owner_is_member_mono:
  assumes "owner_is_member s"
    and "\<And>r room. rooms s' r = Some room \<Longrightarrow>
           rooms s r = Some room \<and>
           (\<forall>m \<in> set (room_members s). mb_room_id m = r \<and> mb_user_id m = rr_owner room \<longrightarrow>
              m \<in> set (room_members s')) \<or>
           (\<exists>m \<in> set (room_members s'). mb_room_id m = r \<and> mb_user_id m = rr_owner room)"
  shows "owner_is_member s'"
  unfolding owner_is_member_def set_list_room_members
proof (intro allI impI)
  fix r room assume a: "rooms s' r = Some room"
  from assms(2)[OF a] show "\<exists>m\<in>set (room_members s'). mb_room_id m = r \<and> mb_user_id m = rr_owner room"
  proof
    assume b: "rooms s r = Some room \<and>
           (\<forall>m \<in> set (room_members s). mb_room_id m = r \<and> mb_user_id m = rr_owner room \<longrightarrow>
              m \<in> set (room_members s'))"
    with assms(1) obtain m where "m \<in> set (room_members s)" "mb_room_id m = r" "mb_user_id m = rr_owner room"
      unfolding owner_is_member_def set_list_room_members by blast
    with b show ?thesis by blast
  qed
qed

lemma owner_is_member_create:
  assumes "owner_is_member s" "create_room now s r owner enc ph md = Inr s'"
  shows "owner_is_member s'"
proof (rule owner_is_member_mono[OF assms(1)])
  fix r' room assume a: "rooms s' r' = Some room"
  from assms(2) have new: "rooms s r = None" by (auto simp: create_room_def split: if_splits)
  have rs: "rooms s' = (rooms s)(r \<mapsto> \<lparr>rr_owner = owner, rr_encrypted = enc, rr_created_at = now,
                    rr_password_hash = ph,
                    rr_metadata = (if truthy md then md else JObj [])\<rparr>)"
    using assms(2) by (auto simp: create_room_def split: if_splits)
  have sub: "set (room_members s) \<subseteq> set (room_members s')"
    using assms(2) by (auto simp: create_room_def split: if_splits)
  have own: "\<exists>m \<in> set (room_members s'). mb_room_id m = r \<and> mb_user_id m = owner"
    using assms(2) by (auto simp: create_room_def list_ex_iff is_member_row_def split: if_splits)
  show "rooms s r' = Some room \<and>
           (\<forall>m \<in> set (room_members s). mb_room_id m = r' \<and> mb_user_id m = rr_owner room \<longrightarrow>
              m \<in> set (room_members s')) \<or>
           (\<exists>m \<in> set (room_members s'). mb_room_id m = r' \<and> mb_user_id m = rr_owner room)"
  proof (cases "r' = r")
    case True
    with a rs own show ?thesis by auto
  next
    case False
    with a rs sub show ?thesis by auto
  qed
qed

lemma owner_is_member_add:
  assumes "owner_is_member s" "add_member now s r u = Inr s'"
  shows "owner_is_member s'"
proof (rule owner_is_member_mono[OF assms(1)])
  fix r' room assume a: "rooms s' r' = Some room"
  have "rooms s' = rooms s" "set (room_members s) \<subseteq> set (room_members s')"
    using assms(2) by (auto simp: add_member_def split: if_splits)
  with a show "rooms s r' = Some room \<and>
           (\<forall>m \<in> set (room_members s). mb_room_id m = r' \<and> mb_user_id m = rr_owner room \<longrightarrow>
              m \<in> set (room_members s')) \<or>
           (\<exists>m \<in> set (room_members s'). mb_room_id m = r' \<and> mb_user_id m = rr_owner room)"
    by auto
qed

lemma owner_is_member_remove:
  assumes "owner_is_member s" "\<And>room. rooms s r = Some room \<Longrightarrow> rr_owner room \<noteq> u"
  shows "owner_is_member (remove_member s r u)"
proof (rule owner_is_member_mono[OF assms(1)])
  fix r' room assume a: "rooms (remove_member s r u) r' = Some room"
  then have b: "rooms s r' = Some room" by (simp add: remove_member_def)
  have "m \<in> set (room_members (remove_member s r u))"
    if "m \<in> set (room_members s)" "mb_room_id m = r'" "mb_user_id m = rr_owner room" for m
    using that assms(2) b by (auto simp: remove_member_def is_member_row_def)
  with b show "rooms s r' = Some room \<and>
           (\<forall>m \<in> set (room_members s). mb_room_id m = r' \<and> mb_user_id m = rr_owner room \<longrightarrow>
              m \<in> set (room_members (remove_member s r u))) \<or>
           (\<exists>m \<in> set (room_members (remove_member s r u)). mb_room_id m = r' \<and> mb_user_id m = rr_owner room)"
    by blast
qed

lemma owner_is_member_delete:
  assumes "owner_is_member s"
  shows "owner_is_member (delete_room s r)"
proof (rule owner_is_member_mono[OF assms(1)])
  fix r' room assume a: "rooms (delete_room s r) r' = Some room"
  then have b: "rooms s r' = Some room" "r' \<noteq> r" by (auto simp: delete_room_def split: if_splits)
  have "m \<in> set (room_members (delete_room s r))"
    if "m \<in> set (room_members s)" "mb_room_id m = r'" for m
    using that b by (auto simp: delete_room_def)
  with b show "rooms s r' = Some room \<and>
           (\<forall>m \<in> set (room_members s). mb_room_id m = r' \<and> mb_user_id m = rr_owner room \<longrightarrow>
              m \<in> set (room_members (delete_room s r))) \<or>
           (\<exists>m \<in> set (room_members (delete_room s r)). mb_room_id m = r' \<and> mb_user_id m = rr_owner room)"
    by blast
qed

lemma owner_is_member_handler:
  assumes inv: "owner_is_member repo"
    and run: "room_handler sha256_hex op now message c (repo, cm) = (res, repo', cm')"
    and nol: "\<not> owner_leaves op message c (repo, cm)"
    and nok: "\<not> owner_kicks_self op message c (repo, cm)"
  shows "owner_is_member repo'"
proof (cases "ctx_user_id (contexts cm c)")
  case None
  with run have "repo' = repo"
    by (cases op) (auto simp: handle_create_def handle_join_def handle_leave_def handle_kick_def
        handle_delete_def)
  with inv show ?thesis by simp
next
  case (Some user)
  let ?r = "the (rp_room_id (m_payload message))"
  show ?thesis
  proof (cases op)
    case RoomCreate
    let ?ph = "if falsy_str (rp_password (m_payload message)) then None
               else Some (sha256_hex (the (rp_password (m_payload message))))"
    from run RoomCreate Some have "repo' = repo \<or>
        create_room now repo ?r user (rp_encrypted (m_payload message)) ?ph (JObj []) = Inr repo'"
      by (auto simp: handle_create_def Let_def split: if_splits sum.splits)
    then show ?thesis using inv owner_is_member_create by blast
  next
    case RoomJoin
    from run RoomJoin Some have "repo' = repo \<or> add_member now repo ?r user = Inr repo'"
      by (auto simp: handle_join_def Let_def split: option.splits if_splits sum.splits)
    then show ?thesis using inv owner_is_member_add by blast
  next
    case RoomLeave
    from run RoomLeave Some nol have "repo' = repo \<or>
       (repo' = remove_member repo ?r user \<and> (\<forall>room. rooms repo ?r = Some room \<longrightarrow> rr_owner room \<noteq> user))"
      by (auto simp: handle_leave_def Let_def owner_leaves_def falsy_str_def room_exists_def
          split: option.splits if_splits)
    then show ?thesis using inv owner_is_member_remove by blast
  next
    case RoomKick
    from run RoomKick Some nok have "repo' = repo \<or>
       (\<exists>t. repo' = remove_member repo ?r t \<and>
            (\<forall>room. rooms repo ?r = Some room \<longrightarrow> rr_owner room \<noteq> t))"
      by (auto simp: handle_kick_def Let_def get_room_def owner_kicks_self_def falsy_str_def
          falsy_def split: option.splits if_splits sum.splits sql_value.splits)
    then show ?thesis using inv owner_is_member_remove by blast
  next
    case RoomDelete
    from run RoomDelete Some have "repo' = repo \<or> repo' = delete_room repo ?r"
      by (auto simp: handle_delete_def Let_def split: option.splits if_splits)
    then show ?thesis using inv owner_is_member_delete by blast
  qed
qed

lemma owner_leave_removes:
  assumes room: "rooms repo room_id = Some room" and ne: "room_id \<noteq> []"
    and owner: "ctx_user_id (contexts cm c) = Some (rr_owner room)"
    and rid: "rp_room_id (m_payload message) = Some room_id"
  shows "handle_leave now message c (repo, cm) =
           (Inr (room_response now message
                   [(''status'', JInt 200), (''room_id'', JStr room_id)]),
            remove_member repo room_id (rr_owner room), cm) \<and>
         rooms (remove_member repo room_id (rr_owner room)) room_id = Some room \<and>
         rr_owner room \<notin> set (list_room_members (remove_member repo room_id (rr_owner room))
                                  room_id)"
  using assms
  by (auto simp: handle_leave_def Let_def falsy_str_def room_exists_def remove_member_def
      list_room_members_def is_member_row_def)

text \<open>
  Claim C6, as amended. In every store reached from the empty store by \<open>room/create\<close>,
  \<open>room/join\<close>, \<open>room/leave\<close>, \<open>room/kick\<close> and \<open>room/delete\<close>, with no \<open>room/leave\<close> issued by
  the owner of the room it names and no \<open>room/kick\<close> in which the owner names a \<open>user_id\<close>
  that the store binds to the owner's own id, the owner of every existing room is a member
  of it. And in any store, a \<open>room/leave\<close> by the owner of an existing room is answered
  with status 200 and removes the owner from the members, while the room and its owner
  stay.
\<close>

theorem owner_stays_member:
  "(room_states_without_owner_removal sha256_hex repo \<longrightarrow> owner_is_member repo) \<and>
   (rooms repo room_id = Some room \<and> room_id \<noteq> [] \<and>
    ctx_user_id (contexts cm c) = Some (rr_owner room) \<and>
    rp_room_id (m_payload message) = Some room_id \<longrightarrow>
      handle_leave now message c (repo, cm) =
        (Inr (room_response now message
                [(''status'', JInt 200), (''room_id'', JStr room_id)]),
         remove_member repo room_id (rr_owner room), cm) \<and>
      rooms (remove_member repo room_id (rr_owner room)) room_id = Some room \<and>
      rr_owner room \<notin> set (list_room_members (remove_member repo room_id (rr_owner room))
                               room_id))"
proof -
  have "owner_is_member repo" if "room_states_without_owner_removal sha256_hex repo"
    using that
  proof (induction rule: room_states_without_owner_removal.induct)
    case ro_init
    show ?case by (simp add: owner_is_member_def empty_store_def)
  next
    case (ro_step repo op now message c cm res repo' cm')
    then show ?case using owner_is_member_handler by blast
  qed
  then show ?thesis using owner_leave_removes by blast
qed

lemma after_create_eval:
  "after_create =
     empty_store
       \<lparr>rooms := [''r2'' \<mapsto> \<lparr>rr_owner = ''alice'', rr_encrypted = False, rr_created_at = 5,
                               rr_password_hash = None, rr_metadata = JObj []\<rparr>],
        room_members := [\<lparr>mb_room_id = ''r2'', mb_user_id = ''alice'', mb_joined_at = 5\<rparr>]\<rparr>"
  by (simp add: after_create_def handle_create_def room_message_def demo_manager_def
      empty_manager_def falsy_str_def Let_def create_room_def empty_store_def is_member_row_def)

lemma after_leave_eval:
  "after_leave =
     empty_store
       \<lparr>rooms := [''r2'' \<mapsto> \<lparr>rr_owner = ''alice'', rr_encrypted = False, rr_created_at = 5,
                               rr_password_hash = None, rr_metadata = JObj []\<rparr>],
        room_members := []\<rparr>"
  by (simp add: after_leave_def after_create_eval handle_leave_def room_message_def demo_manager_def
      empty_manager_def falsy_str_def Let_def room_exists_def remove_member_def empty_store_def
      is_member_row_def)

lemma after_join_eval:
  "after_join =
     empty_store
       \<lparr>rooms := [''r2'' \<mapsto> \<lparr>rr_owner = ''alice'', rr_encrypted = False, rr_created_at = 5,
                               rr_password_hash = None, rr_metadata = JObj []\<rparr>],
        room_members := [\<lparr>mb_room_id = ''r2'', mb_user_id = ''alice'', mb_joined_at = 5\<rparr>,
                         \<lparr>mb_room_id = ''r2'', mb_user_id = ''bob'', mb_joined_at = 6\<rparr>]\<rparr>"
  by (simp add: after_join_def after_create_eval handle_join_def room_message_def demo_manager_def
      empty_manager_def falsy_str_def Let_def get_room_def add_member_def empty_store_def
      is_member_row_def)

lemma create_run:
  "room_handler (\<lambda>p. p) RoomCreate 5 (room_message ''room/create'') 0 (empty_store, demo_manager) =
   (fst (handle_create (\<lambda>p. p) 5 (room_message ''room/create'') 0 (empty_store, demo_manager)),
    after_create,
    snd (snd (handle_create (\<lambda>p. p) 5 (room_message ''room/create'') 0 (empty_store, demo_manager))))"
  by (simp add: after_create_def)

lemma leave_run:
  "room_handler (\<lambda>p. p) RoomLeave 6 (room_message ''room/leave'') 0 (after_create, demo_manager) =
   (fst (handle_leave 6 (room_message ''room/leave'') 0 (after_create, demo_manager)),
    after_leave,
    snd (snd (handle_leave 6 (room_message ''room/leave'') 0 (after_create, demo_manager))))"
  by (simp add: after_leave_def)

lemma join_run:
  "room_handler (\<lambda>p. p) RoomJoin 6 (room_message ''room/join'') 1 (after_create, demo_manager) =
   (fst (handle_join (\<lambda>p. p) 6 (room_message ''room/join'') 1 (after_create, demo_manager)),
    after_join,
    snd (snd (handle_join (\<lambda>p. p) 6 (room_message ''room/join'') 1 (after_create, demo_manager))))"
  by (simp add: after_join_def)

lemma owner_is_memberD:
  "owner_is_member s \<Longrightarrow> rooms s r = Some room \<Longrightarrow> rr_owner room \<in> set (list_room_members s r)"
  by (simp add: owner_is_member_def)

lemma dec_int_five: "dec_int 5 = ''5''"
  by code_simp

lemma numeric_kick_eval:
  "snd (handle_kick 6 numeric_kick 0 (numeric_store, numeric_manager)) =
     (numeric_store\<lparr>room_members := []\<rparr>, numeric_manager)"
  by (simp add: handle_kick_def numeric_kick_def numeric_store_def numeric_manager_def
      empty_manager_def empty_store_def falsy_str_def falsy_def Let_def get_room_def sql_bind_def
      dec_int_five remove_member_def is_member_row_def)

text \<open>
  Claim C6 as stated fails: \<open>handle_leave\<close> removes the caller whoever it is. After alice
  creates the room \<open>r2\<close> and leaves it, the room exists, alice is its owner, and it has no
  member. The owner is removed by \<open>handle_kick\<close> too when the \<open>user_id\<close> is not a string: for
  the room \<open>r5\<close> of the user \<open>5\<close>, the owner's kick of the number 5 passes the test against
  a self-kick and deletes the owner's row.
\<close>

theorem owner_leave_counterexample:
  "room_states (\<lambda>p. p) after_leave \<and>
   map_option rr_owner (rooms after_leave ''r2'') = Some ''alice'' \<and>
   list_room_members after_leave ''r2'' = [] \<and>
   \<not> owner_is_member after_leave \<and>
   map_option rr_owner (rooms numeric_store ''r5'') = Some ''5'' \<and>
   list_room_members numeric_store ''r5'' = [''5''] \<and>
   map_option rr_owner
     (rooms (fst (snd (handle_kick 6 numeric_kick 0 (numeric_store, numeric_manager)))) ''r5'') =
     Some ''5'' \<and>
   list_room_members
     (fst (snd (handle_kick 6 numeric_kick 0 (numeric_store, numeric_manager)))) ''r5'' = []"
proof -
  have k: "map_option rr_owner (rooms numeric_store ''r5'') = Some ''5'' \<and>
   list_room_members numeric_store ''r5'' = [''5''] \<and>
   map_option rr_owner
     (rooms (fst (snd (handle_kick 6 numeric_kick 0 (numeric_store, numeric_manager)))) ''r5'') =
     Some ''5'' \<and>
   list_room_members
     (fst (snd (handle_kick 6 numeric_kick 0 (numeric_store, numeric_manager)))) ''r5'' = []"
    by (simp add: numeric_kick_eval) (simp add: numeric_store_def list_room_members_def)
  have "room_states (\<lambda>p. p) after_create"
    by (rule rs_step[OF rs_init create_run])
  then have "room_states (\<lambda>p. p) after_leave"
    by (rule rs_step[OF _ leave_run])
  moreover have "map_option rr_owner (rooms after_leave ''r2'') = Some ''alice''"
    by (simp add: after_leave_eval)
  moreover have l: "list_room_members after_leave ''r2'' = []"
    by (simp add: after_leave_eval list_room_members_def)
  moreover have "\<not> owner_is_member after_leave"
  proof
    assume "owner_is_member after_leave"
    moreover have "rooms after_leave ''r2'' =
        Some \<lparr>rr_owner = ''alice'', rr_encrypted = False, rr_created_at = 5,
              rr_password_hash = None, rr_metadata = JObj []\<rparr>"
      by (simp add: after_leave_eval)
    ultimately have "''alice'' \<in> set (list_room_members after_leave ''r2'')"
      by (auto dest: owner_is_memberD)
    with l show False by simp
  qed
  ultimately show ?thesis using k by simp
qed

theorem owner_stays_member_witness:
  "room_states_without_owner_removal (\<lambda>p. p) after_join \<and>
   owner_is_member after_join \<and>
   map_option rr_owner (rooms after_join ''r2'') = Some ''alice'' \<and>
   list_room_members after_join ''r2'' = [''alice'', ''bob'']"
proof -
  have 1: "room_states_without_owner_removal (\<lambda>p. p) after_create"
    by (rule ro_step[OF ro_init create_run]) (simp_all add: owner_leaves_def owner_kicks_self_def)
  have 2: "room_states_without_owner_removal (\<lambda>p. p) after_join"
    by (rule ro_step[OF 1 join_run]) (simp_all add: owner_leaves_def owner_kicks_self_def)
  have "map_option rr_owner (rooms after_join ''r2'') = Some ''alice''"
    by (simp add: after_join_eval)
  moreover have "list_room_members after_join ''r2'' = [''alice'', ''bob'']"
    by (simp add: after_join_eval list_room_members_def)
  ultimately show ?thesis using 2 owner_stays_member[of "\<lambda>p. p" after_join] by simp
qed

section \<open>Voice service: the index of users in calls\<close>

lemma demo_contexts:
  "ctx_user_id (contexts demo_manager 0) = Some ''alice''"
  "ctx_user_id (contexts demo_manager (Suc 0)) = Some ''bob''"
  by (simp_all add: demo_manager_def)

lemma notify_all_keeps_contexts [simp]:
  "contexts (notify_all now eids k cm us command payload) = contexts cm"
  by (induction us arbitrary: k cm) simp_all

lemma call_step:
  assumes "ctx_user_id (contexts cm c) = Some u" "u \<noteq> []" "callee \<noteq> []"
    "user_to_call vs u = None"
  shows "\<exists>cm'. contexts cm' = contexts cm \<and>
     snd (handle_call now uuid eids (call_message rid callee) c (vs, cm, repo)) =
       (vs\<lparr>active_calls := (active_calls vs)
              (JStr rid \<mapsto> new_call now (JStr rid) u ''direct'' ''user'' callee),
           user_to_call := (user_to_call vs)(u \<mapsto> JStr rid)\<rparr>, cm', repo)"
  using assms by (simp add: handle_call_def call_message_def Let_def falsy_str_def)

lemma answer_step:
  assumes "ctx_user_id (contexts cm c) = Some u" "u \<noteq> []"
    "active_calls vs (JStr cid) = Some call" "vc_call_type call = ''direct''"
    "vc_status call = ''ringing''"
  shows "\<exists>cm'. contexts cm' = contexts cm \<and>
     snd (handle_answer now eids (answer_message rid cid) c (vs, cm, repo)) =
       (vs\<lparr>active_calls := (active_calls vs)(JStr cid \<mapsto> add_participant now u call),
           user_to_call := (user_to_call vs)(u \<mapsto> JStr cid)\<rparr>, cm', repo)"
  using assms
  by (simp add: handle_answer_def answer_message_def Let_def falsy_str_def lookup_call_def
      json_of_opt_def)

lemma voice_run_eval:
  "voice_run =
     \<lparr>active_calls =
        [JStr ''c1'' \<mapsto> add_participant 3 ''bob''
                           (new_call 1 (JStr ''c1'') ''alice'' ''direct'' ''user'' ''bob''),
         JStr ''c2'' \<mapsto> new_call 2 (JStr ''c2'') ''bob'' ''direct'' ''user'' ''alice''],
      user_to_call = [''alice'' \<mapsto> JStr ''c1'', ''bob'' \<mapsto> JStr ''c1'']\<rparr>"
proof -
  let ?e = "\<lambda>k::nat. ''e''"
  obtain cm1 where c1: "contexts cm1 = contexts demo_manager" and
    s1: "snd (handle_call 1 ''u1'' ?e (call_message ''c1'' ''bob'') 0
               (empty_voice, demo_manager, demo_store)) =
         (empty_voice\<lparr>active_calls := (active_calls empty_voice)
              (JStr ''c1'' \<mapsto> new_call 1 (JStr ''c1'') ''alice'' ''direct'' ''user'' ''bob''),
           user_to_call := (user_to_call empty_voice)(''alice'' \<mapsto> JStr ''c1'')\<rparr>, cm1, demo_store)"
    using call_step[of demo_manager 0 "''alice''" "''bob''" empty_voice 1 "''u1''" ?e "''c1''" demo_store]
    by (auto simp: demo_contexts empty_voice_def)
  let ?vs1 = "empty_voice\<lparr>active_calls := (active_calls empty_voice)
              (JStr ''c1'' \<mapsto> new_call 1 (JStr ''c1'') ''alice'' ''direct'' ''user'' ''bob''),
           user_to_call := (user_to_call empty_voice)(''alice'' \<mapsto> JStr ''c1'')\<rparr>"
  obtain cm2 where c2: "contexts cm2 = contexts cm1" and
    s2: "snd (handle_call 2 ''u2'' ?e (call_message ''c2'' ''alice'') 1 (?vs1, cm1, demo_store)) =
         (?vs1\<lparr>active_calls := (active_calls ?vs1)
              (JStr ''c2'' \<mapsto> new_call 2 (JStr ''c2'') ''bob'' ''direct'' ''user'' ''alice''),
           user_to_call := (user_to_call ?vs1)(''bob'' \<mapsto> JStr ''c2'')\<rparr>, cm2, demo_store)"
    using call_step[of cm1 1 "''bob''" "''alice''" ?vs1 2 "''u2''" ?e "''c2''" demo_store]
    by (auto simp: demo_contexts c1 empty_voice_def)
  let ?vs2 = "?vs1\<lparr>active_calls := (active_calls ?vs1)
              (JStr ''c2'' \<mapsto> new_call 2 (JStr ''c2'') ''bob'' ''direct'' ''user'' ''alice''),
           user_to_call := (user_to_call ?vs1)(''bob'' \<mapsto> JStr ''c2'')\<rparr>"
  obtain cm3 where
    s3: "snd (handle_answer 3 ?e (answer_message ''a1'' ''c1'') 1 (?vs2, cm2, demo_store)) =
         (?vs2\<lparr>active_calls := (active_calls ?vs2)(JStr ''c1'' \<mapsto> add_participant 3 ''bob''
                (new_call 1 (JStr ''c1'') ''alice'' ''direct'' ''user'' ''bob'')),
           user_to_call := (user_to_call ?vs2)(''bob'' \<mapsto> JStr ''c1'')\<rparr>, cm3, demo_store)"
    using answer_step[of cm2 1 "''bob''" ?vs2 "''c1''"
        "new_call 1 (JStr ''c1'') ''alice'' ''direct'' ''user'' ''bob''" 3 ?e "''a1''" demo_store]
    by (auto simp: demo_contexts c1 c2 new_call_def)
  have "voice_run = ?vs2\<lparr>active_calls := (active_calls ?vs2)(JStr ''c1'' \<mapsto> add_participant 3 ''bob''
                (new_call 1 (JStr ''c1'') ''alice'' ''direct'' ''user'' ''bob'')),
           user_to_call := (user_to_call ?vs2)(''bob'' \<mapsto> JStr ''c1'')\<rparr>"
    unfolding voice_run_def Let_def s1 s2 s3 by simp
  then show ?thesis
    by (simp add: empty_voice_def fun_upd_twist)
qed

text \<open>
  Claim C4 asks that in every state the voice handlers reach, the index maps a user to a
  call exactly when the user is a participant of that call and the call has not ended. The
  run \<open>voice_run\<close> reaches a state where it does not: \<open>handle_answer\<close> maps bob to the call
  \<open>c1\<close> he answers without looking whether the index already has him, while he is the
  only participant of the call \<open>c2\<close> he placed, which is still ringing.
\<close>

theorem answer_breaks_voice_index:
  "user_to_call voice_run ''bob'' = Some (JStr ''c1'') \<and>
   map_option vc_participants (active_calls voice_run (JStr ''c2'')) = Some [''bob''] \<and>
   map_option vc_status (active_calls voice_run (JStr ''c2'')) = Some ''ringing'' \<and>
   \<not> voice_index_ok voice_run"
proof -
  have a: "user_to_call voice_run ''bob'' = Some (JStr ''c1'')"
    by (simp add: voice_run_eval)
  have b: "active_calls voice_run (JStr ''c2'') =
           Some (new_call 2 (JStr ''c2'') ''bob'' ''direct'' ''user'' ''alice'')"
    by (simp add: voice_run_eval)
  have c: "user_to_call voice_run ''bob'' \<noteq> Some (JStr ''c2'')"
    by (simp add: a)
  have "\<not> voice_index_ok voice_run"
  proof
    assume "voice_index_ok voice_run"
    then have "(user_to_call voice_run ''bob'' = Some (JStr ''c2'')) =
            (\<exists>call. active_calls voice_run (JStr ''c2'') = Some call \<and> ''bob'' \<in> set (vc_participants call) \<and>
                    vc_status call \<noteq> ''ended'')"
      unfolding voice_index_ok_def by blast
    with c b show False by (simp add: new_call_def)
  qed
  with a b show ?thesis by (simp add: new_call_def)
qed

end
